theory Spec2Isabelle
  imports Main "HOL-Library.Sublist" "HOL-Library.AList"
begin

section \<open>JavaScript idioms used by the transformers\<close>

text \<open>
  The transformers read parsed JSON. A field that is absent (\<open>undefined\<close>) or \<open>null\<close> is
  \<open>None\<close>; the event and response payloads are read through a typed view that gives every
  field the type the upstream wire format gives it (strings, token counts, nested objects).
  Strings are lists of characters; token counts are natural numbers.
\<close>

definition or_str :: "string option \<Rightarrow> string \<Rightarrow> string" where
  \<comment> \<open>\<open>x || d\<close> on a string: \<open>undefined\<close>, \<open>null\<close> and the empty string are falsy\<close>
  "or_str x d = (case x of None \<Rightarrow> d | Some s \<Rightarrow> if s = [] then d else s)"

definition or_nat :: "nat option \<Rightarrow> nat \<Rightarrow> nat" where
  \<comment> \<open>\<open>x || d\<close> on a number: \<open>undefined\<close>, \<open>null\<close> and \<open>0\<close> are falsy\<close>
  "or_nat x d = (case x of None \<Rightarrow> d | Some n \<Rightarrow> if n = 0 then d else n)"

definition digit_char :: "nat \<Rightarrow> char" where
  "digit_char d = char_of (48 + d)"

fun show_nat :: "nat \<Rightarrow> string" where
  \<comment> \<open>decimal rendering of a non-negative integer, as a template literal or a property key\<close>
  "show_nat n = (if n < 10 then [digit_char n] else show_nat (n div 10) @ [digit_char (n mod 10)])"

declare show_nat.simps [simp del]

section \<open>JSON values\<close>

text \<open>
  Tool schemas and tool arguments are arbitrary parsed JSON. An object is the list of its
  own properties in enumeration order, with distinct keys; \<open>obj[k] = v\<close> replaces the value
  of an existing key in place and appends a new key at the end (\<open>AList.update\<close>).
  A value the adapter builds is represented by its own properties, which is what
  \<open>Object.entries\<close> and \<open>JSON.stringify\<close> see of it; parsed input has no other properties.
  Numbers are integers here: the code only tests them for being zero.
\<close>

datatype json =
  JNull
  | JBool bool
  | JNum int
  | JStr string
  | JArr "json list"
  | JObj "(string \<times> json) list"

datatype js_error =
  SchemaError string  \<comment> \<open>\<open>throw new Error(message)\<close>\<close>
  | TypeError         \<comment> \<open>thrown by the runtime: property of \<open>null\<close>, call of a non-function,
                          iteration of a non-iterable\<close>

fun truthy :: "json \<Rightarrow> bool" where
  "truthy JNull = False"
| "truthy (JBool b) = b"
| "truthy (JNum n) = (n \<noteq> 0)"
| "truthy (JStr s) = (s \<noteq> [])"
| "truthy (JArr xs) = True"
| "truthy (JObj kvs) = True"

definition truthy_opt :: "json option \<Rightarrow> bool" where
  \<comment> \<open>truthiness of a property read: \<open>undefined\<close> is falsy\<close>
  "truthy_opt x = (case x of None \<Rightarrow> False | Some v \<Rightarrow> truthy v)"

fun get_prop :: "json \<Rightarrow> string \<Rightarrow> json option" where
  \<comment> \<open>\<open>x[k]\<close> for a value \<open>x\<close> that is not \<open>null\<close> and one of the keys the code reads
      (\<open>"type"\<close>, \<open>"anyOf"\<close>), which arrays, strings, numbers and booleans do not have\<close>
  "get_prop (JObj kvs) k = map_of kvs k"
| "get_prop _ k = None"

fun loose_eq_null_str :: "json \<Rightarrow> bool" where
  \<comment> \<open>\<open>v == "null"\<close>: a string is compared as it is, an array through its \<open>toString\<close> (the
      elements joined with commas), everything else differs from \<open>"null"\<close>\<close>
  "loose_eq_null_str (JStr s) = (s = ''null'')"
| "loose_eq_null_str (JArr [y]) = loose_eq_null_str y"
| "loose_eq_null_str _ = False"

definition index_keys :: "nat \<Rightarrow> string list" where
  "index_keys n = map show_nat [0..<n]"

fun entries :: "json \<Rightarrow> (string \<times> json) list" where
  \<comment> \<open>\<open>Object.entries(x)\<close> for a value that is not \<open>null\<close>\<close>
  "entries (JObj kvs) = kvs"
| "entries (JArr xs) = zip (index_keys (length xs)) xs"
| "entries (JStr s) = zip (index_keys (length s)) (map (\<lambda>c. JStr [c]) s)"
| "entries _ = []"

subsection \<open>Lines of a text stream\<close>

fun split_nl :: "string \<Rightarrow> string list" where
  \<comment> \<open>\<open>s.split("\n")\<close>: never empty, the last element is the text after the last newline\<close>
  "split_nl [] = [[]]"
| "split_nl (c # cs) =
     (if c = CHR 0x0A then [] # split_nl cs
      else (case split_nl cs of [] \<Rightarrow> [[c]] | l # ls \<Rightarrow> (c # l) # ls))"

definition is_space :: "char \<Rightarrow> bool" where
  \<comment> \<open>the ASCII white space and line terminators that \<open>trim\<close> removes\<close>
  "is_space c = (c \<in> {CHR 0x09, CHR 0x0A, CHR 0x0B, CHR 0x0C, CHR 0x0D, CHR 0x20})"

definition trim :: "string \<Rightarrow> string" where
  "trim s = rev (dropWhile is_space (rev (dropWhile is_space s)))"

definition startsWith :: "string \<Rightarrow> string \<Rightarrow> bool" where
  "startsWith s p = (take (length p) s = p)"

fun join :: "string \<Rightarrow> string option list \<Rightarrow> string" where
  \<comment> \<open>\<open>parts.join(sep)\<close>; an element that is \<open>undefined\<close> or \<open>null\<close> is rendered empty\<close>
  "join sep [] = []"
| "join sep [x] = (case x of None \<Rightarrow> [] | Some t \<Rightarrow> t)"
| "join sep (x # y # ys) = (case x of None \<Rightarrow> [] | Some t \<Rightarrow> t) @ sep @ join sep (y # ys)"

section \<open>Anthropic-style stream transcoder (ClaudeAnthropicTransformer, KimiAnthropicTransformer)\<close>

text \<open>
  \<open>_mapStopReason\<close>, \<open>_processSSEEvent\<close>, \<open>_transformStreamResponse\<close> and
  \<open>_transformJsonResponse\<close> of \<open>KimiAnthropicTransformer\<close> are, statement for statement,
  the methods of \<open>ClaudeAnthropicTransformer\<close> (the latter only adds debug logging), so one
  definition embeds both.
\<close>

subsection \<open>Upstream events (typed view of the parsed JSON)\<close>

record usage_in =
  input_tokens :: "nat option"
  output_tokens :: "nat option"

record message_in =
  msg_id :: "string option"
  msg_model :: "string option"
  msg_usage :: "usage_in option"

record content_block_in =
  cb_type :: "string option"
  cb_id :: "string option"
  cb_name :: "string option"

record delta_in =
  dl_type :: "string option"
  dl_text :: "string option"
  dl_thinking :: "string option"
  dl_partial_json :: "string option"
  dl_stop_reason :: "string option"

record event =
  ev_type :: "string option"
  ev_index :: "nat option"
  ev_message :: "message_in option"
  ev_content_block :: "content_block_in option"
  ev_delta :: "delta_in option"
  ev_usage :: "usage_in option"

definition empty_message :: message_in where
  \<comment> \<open>the \<open>{}\<close> of \<open>event.message || {}\<close>\<close>
  "empty_message = \<lparr>msg_id = None, msg_model = None, msg_usage = None\<rparr>"

definition empty_block :: content_block_in where
  "empty_block = \<lparr>cb_type = None, cb_id = None, cb_name = None\<rparr>"

definition empty_delta :: delta_in where
  "empty_delta = \<lparr>dl_type = None, dl_text = None, dl_thinking = None,
     dl_partial_json = None, dl_stop_reason = None\<rparr>"

subsection \<open>Canonical chunks and the stream state\<close>

record tool_call =
  \<comment> \<open>a ToolCallBuffer entry \<open>{id, type: "function", function: {name, arguments}}\<close>\<close>
  tc_id :: "string option"
  tc_name :: "string option"
  tc_arguments :: string

record tool_call_delta =
  \<comment> \<open>an element of \<open>delta.tool_calls\<close>; \<open>function.name\<close> and \<open>function.arguments\<close> flattened\<close>
  tcd_index :: int
  tcd_id :: "string option"
  tcd_type :: "string option"
  tcd_name :: "string option"
  tcd_arguments :: "string option"

record delta_out =
  d_role :: "string option"
  d_content :: "string option"
  d_reasoning_content :: "string option"
  d_tool_calls :: "tool_call_delta list option"

record usage_out =
  prompt_tokens :: nat
  completion_tokens :: nat
  total_tokens :: nat

record chunk =
  \<comment> \<open>\<open>choices\<close> always has the single element with \<open>index: 0\<close>; its \<open>delta\<close> and
      \<open>finish_reason\<close> are fields of the chunk here\<close>
  chunk_id :: string
  chunk_object :: string
  chunk_created :: nat
  chunk_model :: string
  chunk_delta :: delta_out
  chunk_finish_reason :: "string option"
  chunk_usage :: "usage_out option"

record stream_state =
  messageId :: string
  model :: string
  currentBlockIndex :: nat
  currentBlockType :: "string option"
  toolCallsBuffer :: "tool_call list"
  inputTokens :: nat
  outputTokens :: nat
  hasEmittedRole :: bool

datatype out_item =
  Chunk chunk
  | StateRef stream_state
    \<comment> \<open>\<open>{_state: state}\<close>: a reference to the state object, read by the caller after the
        handler has returned, so it carries the state as the handler left it\<close>

definition empty_delta_out :: delta_out where
  "empty_delta_out = \<lparr>d_role = None, d_content = None, d_reasoning_content = None,
     d_tool_calls = None\<rparr>"

definition mk_chunk :: "nat \<Rightarrow> stream_state \<Rightarrow> delta_out \<Rightarrow> string option \<Rightarrow> usage_out option \<Rightarrow> chunk" where
  \<comment> \<open>the object literal every branch pushes; \<open>now\<close> is the reading of \<open>Date.now()\<close>\<close>
  "mk_chunk now state d fr u = \<lparr>chunk_id = messageId state,
     chunk_object = ''chat.completion.chunk'', chunk_created = now div 1000,
     chunk_model = model state, chunk_delta = d, chunk_finish_reason = fr, chunk_usage = u\<rparr>"

subsection \<open>\<open>_mapStopReason\<close>\<close>

definition mapStopReason :: "string option \<Rightarrow> string option" where
  "mapStopReason stopReason =
     (if stopReason = Some ''end_turn'' then Some ''stop''
      else if stopReason = Some ''max_tokens'' then Some ''length''
      else if stopReason = Some ''tool_use'' then Some ''tool_calls''
      else if stopReason = Some ''stop_sequence'' then Some ''stop''
      else (case stopReason of None \<Rightarrow> None
            | Some s \<Rightarrow> if s = [] then None else Some s))"

subsection \<open>\<open>_processSSEEvent\<close>\<close>

definition append_arguments :: "tool_call list \<Rightarrow> int \<Rightarrow> string \<Rightarrow> tool_call list option" where
  \<comment> \<open>\<open>buf[i].function.arguments += frag\<close>; \<open>buf[i]\<close> is \<open>undefined\<close> outside the array and
      reading \<open>.function\<close> of it throws a TypeError (\<open>None\<close>)\<close>
  "append_arguments buf i frag =
     (if 0 \<le> i \<and> i < int (length buf)
      then Some (buf[nat i := (buf ! nat i)\<lparr>tc_arguments := tc_arguments (buf ! nat i) @ frag\<rparr>])
      else None)"

definition on_message_start :: "nat \<Rightarrow> event \<Rightarrow> stream_state \<Rightarrow> out_item list" where
  "on_message_start now ev state =
     (let message = (case ev_message ev of None \<Rightarrow> empty_message | Some m \<Rightarrow> m);
          state1 = state\<lparr>messageId := or_str (msg_id message) (''chatcmpl-'' @ show_nat now),
                     model := or_str (msg_model message) [],
                     inputTokens := or_nat (case msg_usage message of None \<Rightarrow> None
                                             | Some u \<Rightarrow> input_tokens u) 0\<rparr>;
          c = mk_chunk now state1
                (empty_delta_out\<lparr>d_role := Some ''assistant'', d_content := Some []\<rparr>) None None;
          state2 = state1\<lparr>hasEmittedRole := True\<rparr>
      in [Chunk c, StateRef state2])"

definition on_content_block_start :: "nat \<Rightarrow> event \<Rightarrow> stream_state \<Rightarrow> out_item list" where
  "on_content_block_start now ev state =
     (let block = (case ev_content_block ev of None \<Rightarrow> empty_block | Some b \<Rightarrow> b);
          state1 = state\<lparr>currentBlockIndex :=
                       (case ev_index ev of None \<Rightarrow> currentBlockIndex state | Some i \<Rightarrow> i),
                     currentBlockType := cb_type block\<rparr>
      in if cb_type block = Some ''tool_use''
         then (let state2 = state1\<lparr>toolCallsBuffer := toolCallsBuffer state1 @
                        [\<lparr>tc_id = cb_id block, tc_name = cb_name block, tc_arguments = []\<rparr>]\<rparr>;
                   c = mk_chunk now state2
                         (empty_delta_out\<lparr>d_tool_calls := Some
                            [\<lparr>tcd_index = int (length (toolCallsBuffer state2)) - 1,
                              tcd_id = cb_id block, tcd_type = Some ''function'',
                              tcd_name = cb_name block, tcd_arguments = Some []\<rparr>]\<rparr>) None None
               in [Chunk c, StateRef state2])
         else [StateRef state1])"

definition on_content_block_delta :: "nat \<Rightarrow> event \<Rightarrow> stream_state \<Rightarrow> out_item list option" where
  "on_content_block_delta now ev state =
     (let delta = (case ev_delta ev of None \<Rightarrow> empty_delta | Some d \<Rightarrow> d)
      in if dl_type delta = Some ''text_delta''
         then Some [Chunk (mk_chunk now state
                 (empty_delta_out\<lparr>d_content := Some (or_str (dl_text delta) [])\<rparr>) None None),
               StateRef state]
         else if dl_type delta = Some ''thinking_delta''
         then Some [Chunk (mk_chunk now state
                 (empty_delta_out\<lparr>d_reasoning_content := Some (or_str (dl_thinking delta) [])\<rparr>)
                 None None),
               StateRef state]
         else if dl_type delta = Some ''input_json_delta''
         then (let toolIndex = int (length (toolCallsBuffer state)) - 1
               in if toolIndex \<ge> 0
                  then (case append_arguments (toolCallsBuffer state) toolIndex
                               (or_str (dl_partial_json delta) []) of
                          None \<Rightarrow> None
                        | Some buf \<Rightarrow>
                            (let state1 = state\<lparr>toolCallsBuffer := buf\<rparr>
                             in Some [Chunk (mk_chunk now state1
                                   (empty_delta_out\<lparr>d_tool_calls := Some
                                      [\<lparr>tcd_index = toolIndex, tcd_id = None, tcd_type = None,
                                        tcd_name = None,
                                        tcd_arguments = Some (or_str (dl_partial_json delta) [])\<rparr>]\<rparr>)
                                   None None),
                                 StateRef state1]))
                  else Some [StateRef state])
         else Some [StateRef state])"

definition on_message_delta :: "nat \<Rightarrow> event \<Rightarrow> stream_state \<Rightarrow> out_item list" where
  "on_message_delta now ev state =
     (let messageDelta = (case ev_delta ev of None \<Rightarrow> empty_delta | Some d \<Rightarrow> d);
          state1 = state\<lparr>outputTokens := or_nat (case ev_usage ev of None \<Rightarrow> None
                                                  | Some u \<Rightarrow> output_tokens u)
                                                 (outputTokens state)\<rparr>
      in [Chunk (mk_chunk now state1 empty_delta_out (mapStopReason (dl_stop_reason messageDelta))
                  (Some \<lparr>prompt_tokens = inputTokens state1,
                         completion_tokens = outputTokens state1,
                         total_tokens = inputTokens state1 + outputTokens state1\<rparr>)),
          StateRef state1])"

definition processSSEEvent :: "nat \<Rightarrow> event \<Rightarrow> stream_state \<Rightarrow> out_item list option" where
  \<comment> \<open>\<open>None\<close>: the handler throws\<close>
  "processSSEEvent now ev state =
     (if ev_type ev = Some ''message_start'' then Some (on_message_start now ev state)
      else if ev_type ev = Some ''content_block_start'' then Some (on_content_block_start now ev state)
      else if ev_type ev = Some ''content_block_delta'' then on_content_block_delta now ev state
      else if ev_type ev = Some ''content_block_stop''
        then Some [StateRef (state\<lparr>currentBlockType := None\<rparr>)]
      else if ev_type ev = Some ''message_delta'' then Some (on_message_delta now ev state)
      else Some [])"

subsection \<open>The consumer loop of \<open>_transformStreamResponse\<close>\<close>

definition sync_state :: "stream_state \<Rightarrow> stream_state \<Rightarrow> stream_state" where
  \<comment> \<open>the assignments made from \<open>chunk._state\<close> to the variables of the closure (\<open>cl\<close>):
      \<open>||\<close> keeps the old value when the new one is falsy, \<open>??\<close> when it is \<open>null\<close>\<close>
  "sync_state cl st = \<lparr>
     messageId = (if messageId st \<noteq> [] then messageId st else messageId cl),
     model = (if model st \<noteq> [] then model st else model cl),
     currentBlockIndex = currentBlockIndex st,
     currentBlockType = (case currentBlockType st of None \<Rightarrow> currentBlockType cl | Some t \<Rightarrow> Some t),
     toolCallsBuffer = toolCallsBuffer st,
     inputTokens = inputTokens st,
     outputTokens = outputTokens st,
     hasEmittedRole = hasEmittedRole st\<rparr>"

fun consume :: "out_item list \<Rightarrow> stream_state \<Rightarrow> chunk list \<times> stream_state" where
  \<comment> \<open>\<open>for (const chunk of chunks)\<close>: state references update the closure, chunks are enqueued\<close>
  "consume [] cl = ([], cl)"
| "consume (StateRef st # xs) cl = consume xs (sync_state cl st)"
| "consume (Chunk c # xs) cl = (case consume xs cl of (cs, cl') \<Rightarrow> (c # cs, cl'))"

definition handle_event :: "nat \<Rightarrow> event \<Rightarrow> stream_state \<Rightarrow> chunk list \<times> stream_state" where
  \<comment> \<open>one parsed event inside the \<open>try\<close>: a throw of the handler is caught and the line skipped\<close>
  "handle_event now ev cl =
     (case processSSEEvent now ev cl of None \<Rightarrow> ([], cl) | Some items \<Rightarrow> consume items cl)"

fun process_events :: "nat \<Rightarrow> event list \<Rightarrow> stream_state \<Rightarrow> chunk list \<times> stream_state" where
  "process_events now [] cl = ([], cl)"
| "process_events now (ev # evs) cl =
     (case handle_event now ev cl of (cs, cl') \<Rightarrow>
        (case process_events now evs cl' of (cs', cl'') \<Rightarrow> (cs @ cs', cl'')))"

subsection \<open>\<open>_transformStreamResponse\<close>\<close>

text \<open>
  The upstream body is the list of the text deliveries the reader returns before it reports
  \<open>done\<close> (a clean end of stream). \<open>JSON.parse\<close> followed by the typed view of the event is
  the parameter \<open>parse\<close>; \<open>None\<close> is a payload on which \<open>JSON.parse\<close> or the handler's first
  property read throws.
\<close>

datatype sse_out =
  Data chunk  \<comment> \<open>\<open>data: <json>\n\n\<close>\<close>
  | Done      \<comment> \<open>\<open>data: [DONE]\n\n\<close>\<close>

definition initial_state :: stream_state where
  "initial_state = \<lparr>messageId = [], model = [], currentBlockIndex = 0, currentBlockType = None,
     toolCallsBuffer = [], inputTokens = 0, outputTokens = 0, hasEmittedRole = False\<rparr>"

definition process_line ::
  "(string \<Rightarrow> event option) \<Rightarrow> nat \<Rightarrow> string \<Rightarrow> stream_state \<Rightarrow> chunk list \<times> stream_state" where
  "process_line parse now line cl =
     (if startsWith line ''event:'' then ([], cl)
      else if \<not> startsWith line ''data:'' then ([], cl)
      else (let jsonStr = trim (drop 5 line)
            in if jsonStr = [] then ([], cl)
               else (case parse jsonStr of None \<Rightarrow> ([], cl)
                     | Some ev \<Rightarrow> handle_event now ev cl)))"

fun process_lines ::
  "(string \<Rightarrow> event option) \<Rightarrow> nat \<Rightarrow> string list \<Rightarrow> stream_state \<Rightarrow> chunk list \<times> stream_state" where
  "process_lines parse now [] cl = ([], cl)"
| "process_lines parse now (line # lines) cl =
     (case process_line parse now line cl of (cs, cl') \<Rightarrow>
        (case process_lines parse now lines cl' of (cs', cl'') \<Rightarrow> (cs @ cs', cl'')))"

fun stream_loop ::
  "(string \<Rightarrow> event option) \<Rightarrow> nat \<Rightarrow> string list \<Rightarrow> string \<Rightarrow> stream_state \<Rightarrow> sse_out list" where
  \<comment> \<open>\<open>while (true)\<close> over the reads; on \<open>done\<close> the sentinel is enqueued and the loop left\<close>
  "stream_loop parse now [] buffer cl = [Done]"
| "stream_loop parse now (v # reads) buffer cl =
     (let lines = split_nl (buffer @ v)
      in (case process_lines parse now (butlast lines) cl of (cs, cl') \<Rightarrow>
            map Data cs @ stream_loop parse now reads (last lines) cl'))"

definition transformStreamResponse ::
  "(string \<Rightarrow> event option) \<Rightarrow> nat \<Rightarrow> string list \<Rightarrow> sse_out list" where
  "transformStreamResponse parse now reads = stream_loop parse now reads [] initial_state"

subsection \<open>\<open>_transformJsonResponse\<close>\<close>

record block_in =
  blk_type :: "string option"
  blk_text :: "string option"
  blk_thinking :: string  \<comment> \<open>read from thinking blocks only, where it is a string\<close>
  blk_id :: "string option"
  blk_name :: "string option"
  blk_input :: "json option"

record response_in =
  rsp_id :: "string option"
  rsp_model :: "string option"
  rsp_stop_reason :: "string option"
  rsp_usage :: "usage_in option"
  rsp_content :: "block_in list option"

record message_out =
  m_role :: string
  m_content :: string
  m_reasoning_content :: "string option"
  m_tool_calls :: "tool_call list option"

record response_out =
  r_id :: string
  r_object :: string
  r_created :: nat
  r_model :: "string option"
  r_message :: message_out
  r_finish_reason :: "string option"
  r_usage :: usage_out

record block_acc =
  textParts :: "string option list"
  reasoning :: "string option"
  toolCalls :: "tool_call list"

definition collect_block :: "(json \<Rightarrow> string) \<Rightarrow> block_acc \<Rightarrow> block_in \<Rightarrow> block_acc" where
  \<comment> \<open>the body of \<open>for (const block of data.content || [])\<close>; \<open>stringify\<close> is \<open>JSON.stringify\<close>\<close>
  "collect_block stringify acc block =
     (if blk_type block = Some ''text'' then acc\<lparr>textParts := textParts acc @ [blk_text block]\<rparr>
      else if blk_type block = Some ''thinking''
        then acc\<lparr>reasoning := Some (or_str (reasoning acc) [] @ blk_thinking block)\<rparr>
      else if blk_type block = Some ''tool_use''
        then acc\<lparr>toolCalls := toolCalls acc @
               [\<lparr>tc_id = blk_id block, tc_name = blk_name block,
                 tc_arguments = stringify (case blk_input block of None \<Rightarrow> JObj []
                                            | Some i \<Rightarrow> if truthy i then i else JObj [])\<rparr>]\<rparr>
      else acc)"

definition transformJsonResponse :: "(json \<Rightarrow> string) \<Rightarrow> nat \<Rightarrow> response_in \<Rightarrow> response_out" where
  "transformJsonResponse stringify now data =
     (let input = or_nat (case rsp_usage data of None \<Rightarrow> None | Some u \<Rightarrow> input_tokens u) 0;
          output = or_nat (case rsp_usage data of None \<Rightarrow> None | Some u \<Rightarrow> output_tokens u) 0;
          acc = foldl (collect_block stringify)
                  \<lparr>textParts = [], reasoning = None, toolCalls = []\<rparr>
                  (case rsp_content data of None \<Rightarrow> [] | Some blocks \<Rightarrow> blocks)
      in \<lparr>r_id = or_str (rsp_id data) (''chatcmpl-'' @ show_nat now),
          r_object = ''chat.completion'',
          r_created = now div 1000,
          r_model = rsp_model data,
          r_message = \<lparr>m_role = ''assistant'',
                       m_content = join [] (textParts acc),
                       m_reasoning_content = reasoning acc,
                       m_tool_calls = (if length (toolCalls acc) > 0 then Some (toolCalls acc) else None)\<rparr>,
          r_finish_reason = mapStopReason (rsp_stop_reason data),
          r_usage = \<lparr>prompt_tokens = input, completion_tokens = output,
                     total_tokens = input + output\<rparr>\<rparr>)"

section \<open>JSON-Schema adapter (gemini-cli.js)\<close>

definition Type_values :: "string list" where
  \<comment> \<open>\<open>Object.values(Type)\<close>\<close>
  "Type_values = [''TYPE_UNSPECIFIED'', ''STRING'', ''NUMBER'', ''INTEGER'', ''BOOLEAN'',
     ''ARRAY'', ''OBJECT'', ''NULL'']"

definition upper_char :: "char \<Rightarrow> char" where
  "upper_char c = (let n = (of_char c :: nat) in if 97 \<le> n \<and> n \<le> 122 then char_of (n - 32) else c)"

definition toUpperCase :: "string \<Rightarrow> string" where
  \<comment> \<open>on ASCII text, which is what type names are\<close>
  "toUpperCase s = map upper_char s"

definition to_Type :: "string \<Rightarrow> string" where
  \<comment> \<open>\<open>Object.values(Type).includes(u) ? u : Type.TYPE_UNSPECIFIED\<close> for \<open>u = s.toUpperCase()\<close>\<close>
  "to_Type s = (let upperCaseType = toUpperCase s
                in if upperCaseType \<in> set Type_values then upperCaseType else ''TYPE_UNSPECIFIED'')"

fun upper_type_of :: "json \<Rightarrow> js_error + string" where
  \<comment> \<open>only strings have a \<open>toUpperCase\<close> method\<close>
  "upper_type_of (JStr s) = Inr (to_Type s)"
| "upper_type_of _ = Inl TypeError"

fun single_types :: "json list \<Rightarrow> js_error + json list" where
  \<comment> \<open>the \<open>for (const i of listWithoutNull)\<close> loop pushing \<open>{type: ...}\<close>\<close>
  "single_types [] = Inr []"
| "single_types (i # rest) =
     (case upper_type_of i of Inl e \<Rightarrow> Inl e
      | Inr t \<Rightarrow> (case single_types rest of Inl e \<Rightarrow> Inl e
                  | Inr ts \<Rightarrow> Inr (JObj [(''type'', JStr t)] # ts)))"

definition flattenTypeArrayToAnyOf ::
  "json list \<Rightarrow> (string \<times> json) list \<Rightarrow> js_error + (string \<times> json) list" where
  "flattenTypeArrayToAnyOf typeList resultingSchema =
     (let r1 = (if JStr ''null'' \<in> set typeList
                then AList.update ''nullable'' (JBool True) resultingSchema else resultingSchema);
          listWithoutNull = filter (\<lambda>t. t \<noteq> JStr ''null'') typeList
      in if length listWithoutNull = 1
         then (case upper_type_of (hd listWithoutNull) of Inl e \<Rightarrow> Inl e
               | Inr t \<Rightarrow> Inr (AList.update ''type'' (JStr t) r1))
         else (case single_types listWithoutNull of Inl e \<Rightarrow> Inl e
               | Inr ts \<Rightarrow> Inr (AList.update ''anyOf'' (JArr ts) r1)))"

definition is_null_type :: "json \<Rightarrow> bool" where
  \<comment> \<open>\<open>x && x["type"] === "null"\<close>\<close>
  "is_null_type x = (truthy x \<and> get_prop x ''type'' = Some (JStr ''null''))"

definition unwrap_nullable :: "json \<Rightarrow> json \<times> bool" where
  \<comment> \<open>the two-element \<open>anyOf\<close> with a null alternative: the schema processed from there on,
      and whether \<open>nullable\<close> was set\<close>
  "unwrap_nullable s =
     (case get_prop s ''anyOf'' of
        Some (JArr [a, b]) \<Rightarrow>
          if is_null_type a then (b, True)
          else if is_null_type b then (a, True)
          else (s, False)
      | _ \<Rightarrow> (s, False))"

fun pass_fields :: "(string \<times> json) list \<Rightarrow> (string \<times> json) list \<Rightarrow> (string \<times> json) list" where
  \<comment> \<open>the field loop over the index entries of an array or a string: an index is none of
      the field names the loop distinguishes, so every entry that is not \<open>null\<close> is copied\<close>
  "pass_fields [] g = g"
| "pass_fields ((fieldName, fieldValue) # rest) g =
     (if fieldValue = JNull then pass_fields rest g
      else pass_fields rest (AList.update fieldName fieldValue g))"

definition assign :: "string \<Rightarrow> json \<Rightarrow> (string \<times> json) list \<Rightarrow> (string \<times> json) list" where
  \<comment> \<open>\<open>obj[key] = value\<close> for a key taken from the input. The key \<open>"__proto__"\<close> is the
      accessor of \<open>Object.prototype\<close>: the assignment creates no own property (it sets the
      prototype when the value is an object and does nothing otherwise), so the own
      properties stay as they were\<close>
  "assign key v obj = (if key = ''__proto__'' then obj else AList.update key v obj)"

definition assign_all :: "(string \<times> json) list \<Rightarrow> (string \<times> json) list \<Rightarrow> (string \<times> json) list" where
  \<comment> \<open>\<open>obj[key] = value\<close> for every entry in turn, for index keys\<close>
  "assign_all kvs obj = foldl (\<lambda>ob (k, v). AList.update k v ob) obj kvs"

definition char_schema :: "char \<Rightarrow> json" where
  \<comment> \<open>\<open>processJsonSchema\<close> of a one-character string: its only entry is \<open>["0", c]\<close>\<close>
  "char_schema c = JObj [(''0'', JStr [c])]"

subsection \<open>\<open>processJsonSchema\<close>\<close>

text \<open>Size bounds for the termination of the recursion over the schema.\<close>

lemma size_values_le: "size_list (\<lambda>x. size (snd x)) kvs \<le> size (JObj kvs)"
  by (induction kvs) auto

lemma size_values_le_prod:
  "size_list (\<lambda>x. size (snd x)) kvs \<le> size_list (size_prod (\<lambda>x. 0) size) kvs"
  by (induction kvs) auto

lemma size_map_of: "map_of kvs k = Some v \<Longrightarrow> size v < size (JObj kvs)"
  by (induction kvs) (auto split: if_splits)

lemma size_unwrap_nullable: "size (fst (unwrap_nullable s)) \<le> size s"
proof (cases s)
  case (JObj kvs)
  show ?thesis
  proof (cases "map_of kvs ''anyOf''")
    case None
    then show ?thesis using JObj by (simp add: unwrap_nullable_def)
  next
    case (Some v)
    from size_map_of [OF this] have "size v < size s" using JObj by simp
    then show ?thesis using JObj Some
      by (auto simp: unwrap_nullable_def split: json.splits list.splits)
  qed
qed (simp_all add: unwrap_nullable_def)

lemma size_zip_index_keys:
  "size_list (\<lambda>x. size (snd x)) (zip (index_keys (length xs)) xs) = size_list size xs"
proof -
  have "size_list (\<lambda>x. size (snd x)) (zip ks xs) = size_list size xs"
    if "length ks = length xs" for ks :: "string list"
    using that by (induction ks xs rule: list_induct2) simp_all
  then show ?thesis by (simp add: index_keys_def)
qed

lemma size_fields_unwrap:
  assumes "fst (unwrap_nullable s) = JObj kvs"
  shows "2 * size_list (\<lambda>x. size (snd x)) kvs < Suc (2 * size s)"
proof -
  have "size_list (\<lambda>x. size (snd x)) kvs \<le> size (fst (unwrap_nullable s))"
    using assms size_values_le [of kvs] by simp
  moreover have "size (fst (unwrap_nullable s)) \<le> size s"
    by (rule size_unwrap_nullable)
  ultimately show ?thesis by simp
qed

lemma size_props:
  "2 * size_list (\<lambda>x. size (snd x)) props
     < Suc (Suc (Suc (Suc (2 * size_list (size_prod (\<lambda>x. 0) size) props + n))))"
  using size_values_le_prod [of props] by simp

function processJsonSchema :: "json \<Rightarrow> js_error + json"
  and process_fields :: "(string \<times> json) list \<Rightarrow> (string \<times> json) list \<Rightarrow> js_error + (string \<times> json) list"
  and process_list :: "json list \<Rightarrow> js_error + bool \<times> json list"
  and process_dict :: "(string \<times> json) list \<Rightarrow> (string \<times> json) list \<Rightarrow> js_error + (string \<times> json) list"
where
  "processJsonSchema s =
     (if s = JNull then Inl TypeError
      else if truthy_opt (get_prop s ''type'') \<and> truthy_opt (get_prop s ''anyOf'')
      then Inl (SchemaError ''type and anyOf cannot be both populated.'')
      else (let jsonSchema = fst (unwrap_nullable s);
                genAISchema = (if snd (unwrap_nullable s) then [(''nullable'', JBool True)] else [])
            in if jsonSchema = JNull then Inl TypeError
               else (case (case get_prop jsonSchema ''type'' of
                             Some (JArr typeList) \<Rightarrow> flattenTypeArrayToAnyOf typeList genAISchema
                           | _ \<Rightarrow> Inr genAISchema) of
                       Inl e \<Rightarrow> Inl e
                     | Inr g \<Rightarrow>
                         (case jsonSchema of
                            JObj kvs \<Rightarrow> (case process_fields kvs g of Inl e \<Rightarrow> Inl e
                                          | Inr g' \<Rightarrow> Inr (JObj g'))
                          | _ \<Rightarrow> Inr (JObj (pass_fields (entries jsonSchema) g))))))"
| "process_fields [] g = Inr g"
| "process_fields ((fieldName, fieldValue) # rest) g =
     (if fieldValue = JNull then process_fields rest g
      else if fieldName = ''type'' then
        (if fieldValue = JStr ''null''
         then Inl (SchemaError ''type: null can not be the only possible type for the field.'')
         else (case fieldValue of
                 JArr typeList \<Rightarrow> process_fields rest g
               | _ \<Rightarrow> (case upper_type_of fieldValue of Inl e \<Rightarrow> Inl e
                       | Inr t \<Rightarrow> process_fields rest (AList.update ''type'' (JStr t) g))))
      else if fieldName = ''items'' then
        (case processJsonSchema fieldValue of Inl e \<Rightarrow> Inl e
         | Inr r \<Rightarrow> process_fields rest (AList.update fieldName r g))
      else if fieldName = ''anyOf'' then
        (case fieldValue of
           JArr items \<Rightarrow>
             (case process_list items of Inl e \<Rightarrow> Inl e
              | Inr (nullable, listSchemaFieldValue) \<Rightarrow>
                  process_fields rest
                    (AList.update fieldName (JArr listSchemaFieldValue)
                       (if nullable then AList.update ''nullable'' (JBool True) g else g)))
         | JStr cs \<Rightarrow> process_fields rest (AList.update fieldName (JArr (map char_schema cs)) g)
         | _ \<Rightarrow> Inl TypeError)
      else if fieldName = ''properties'' then
        (case fieldValue of
           JObj props \<Rightarrow>
             (case process_dict props [] of Inl e \<Rightarrow> Inl e
              | Inr dictSchemaFieldValue \<Rightarrow>
                  process_fields rest (AList.update fieldName (JObj dictSchemaFieldValue) g))
         | JArr xs \<Rightarrow>
             (case process_dict (zip (index_keys (length xs)) xs) [] of Inl e \<Rightarrow> Inl e
              | Inr dictSchemaFieldValue \<Rightarrow>
                  process_fields rest (AList.update fieldName (JObj dictSchemaFieldValue) g))
         | JStr cs \<Rightarrow>
             process_fields rest
               (AList.update fieldName
                  (JObj (assign_all (zip (index_keys (length cs)) (map char_schema cs)) [])) g)
         | _ \<Rightarrow> process_fields rest (AList.update fieldName (JObj []) g))
      else if fieldName = ''additionalProperties'' then process_fields rest g
      else process_fields rest (assign fieldName fieldValue g))"
| "process_list [] = Inr (False, [])"
| "process_list (item # items) =
     (if item = JNull then Inl TypeError
      else if (case get_prop item ''type'' of None \<Rightarrow> False | Some t \<Rightarrow> loose_eq_null_str t)
      then (case process_list items of Inl e \<Rightarrow> Inl e
            | Inr (nullable, rs) \<Rightarrow> Inr (True, rs))
      else (case processJsonSchema item of Inl e \<Rightarrow> Inl e
            | Inr r \<Rightarrow> (case process_list items of Inl e \<Rightarrow> Inl e
                        | Inr (nullable, rs) \<Rightarrow> Inr (nullable, r # rs))))"
| "process_dict [] acc = Inr acc"
| "process_dict ((key, v) # rest) acc =
     (case processJsonSchema v of Inl e \<Rightarrow> Inl e
      | Inr r \<Rightarrow> process_dict rest (assign key r acc))"
  by pat_completeness auto

termination
  by (relation "measure (\<lambda>x. case x of
      Inl (Inl s) \<Rightarrow> 2 * size s + 1
    | Inl (Inr (kvs, g)) \<Rightarrow> 2 * size_list (\<lambda>x. size (snd x)) kvs
    | Inr (Inl items) \<Rightarrow> 2 * size_list size items
    | Inr (Inr (kvs, acc)) \<Rightarrow> 2 * size_list (\<lambda>x. size (snd x)) kvs)")
    (simp_all add: size_zip_index_keys size_fields_unwrap size_props)

declare processJsonSchema.simps [simp del]

subsection \<open>\<open>tTool\<close> and the tools of \<open>transformRequestIn\<close>\<close>












section \<open>Cloud-Code response transcoder (GeminiCLITransformer.transformResponseOut)\<close>

subsection \<open>Upstream response (typed view of the parsed JSON)\<close>

record function_call_in =
  fc_id :: "string option"
  fc_name :: "string option"
  fc_args :: "json option"

record part_in =
  part_text :: "string option"
  part_functionCall :: "function_call_in option"

record content_in =
  cnt_parts :: "part_in list option"

record web_in =
  web_uri :: "string option"
  web_title :: "string option"

record grounding_chunk_in =
  gc_web :: "web_in option"

record segment_in =
  seg_text :: "string option"
  seg_startIndex :: "nat option"
  seg_endIndex :: "nat option"

record grounding_support_in =
  gs_segment :: "segment_in option"
  gs_groundingChunkIndices :: "nat list option"

record grounding_in =
  gm_groundingChunks :: "grounding_chunk_in list option"
  gm_groundingSupports :: "grounding_support_in list option"

record candidate_in =
  cand_content :: "content_in option"
  cand_finishReason :: "string option"
  cand_index :: "nat option"
  cand_groundingMetadata :: "grounding_in option"

record usage_metadata_in =
  um_candidatesTokenCount :: "nat option"
  um_promptTokenCount :: "nat option"
  um_totalTokenCount :: "nat option"

record gemini_response =
  gr_candidates :: "candidate_in list option"
  gr_responseId :: "string option"
  gr_modelVersion :: "string option"
  gr_usageMetadata :: "usage_metadata_in option"

record gemini_envelope =
  env_response :: "gemini_response option"

subsection \<open>Canonical output\<close>

record annotation =
  \<comment> \<open>\<open>{type: "url_citation", url_citation: {...}}\<close>\<close>
  ann_url :: "string option"
  ann_title :: "string option"
  ann_content :: "string option"
  ann_start_index :: "nat option"
  ann_end_index :: "nat option"

record gemini_usage =
  gu_completion_tokens :: "nat option"
  gu_prompt_tokens :: "nat option"
  gu_total_tokens :: "nat option"

record gemini_delta =
  gd_role :: "string option"
  gd_content :: "string option"
  gd_tool_calls :: "tool_call list option"
  gd_annotations :: "annotation list option"

record gemini_chunk =
  gch_delta :: gemini_delta
  gch_finish_reason :: "string option"
  gch_index :: nat
  gch_created :: nat
  gch_id :: string
  gch_model :: string
  gch_object :: string
  gch_system_fingerprint :: string
  gch_usage :: gemini_usage

record gemini_completion =
  gco_id :: "string option"
  gco_finish_reason :: "string option"
  gco_message :: message_out
  gco_created :: nat
  gco_model :: "string option"
  gco_object :: string
  gco_usage :: gemini_usage

subsection \<open>Shared pieces\<close>

definition lower_char :: "char \<Rightarrow> char" where
  "lower_char c = (let n = (of_char c :: nat) in if 65 \<le> n \<and> n \<le> 90 then char_of (n + 32) else c)"

definition toLowerCase :: "string \<Rightarrow> string" where
  "toLowerCase s = map lower_char s"

definition finish_reason_of :: "candidate_in \<Rightarrow> string option" where
  \<comment> \<open>\<open>finishReason?.toLowerCase() || null\<close>\<close>
  "finish_reason_of cand =
     (case cand_finishReason cand of None \<Rightarrow> None
      | Some r \<Rightarrow> if toLowerCase r = [] then None else Some (toLowerCase r))"

definition first_parts :: "gemini_response \<Rightarrow> js_error + candidate_in \<times> part_in list" where
  \<comment> \<open>\<open>candidates[0].content.parts\<close>; without parts \<open>tool_calls\<close> is \<open>undefined\<close> and reading
      its \<open>length\<close> throws\<close>
  "first_parts r =
     (case gr_candidates r of
        None \<Rightarrow> Inl TypeError
      | Some [] \<Rightarrow> Inl TypeError
      | Some (cand # _) \<Rightarrow>
          (case cand_content cand of
             None \<Rightarrow> Inl TypeError
           | Some content \<Rightarrow>
               (case cnt_parts content of
                  None \<Rightarrow> Inl TypeError
                | Some parts \<Rightarrow> Inr (cand, parts))))"

definition tool_calls_of :: "(json \<Rightarrow> string) \<Rightarrow> string \<Rightarrow> part_in list \<Rightarrow> tool_call list" where
  \<comment> \<open>\<open>parts.filter(part => part.functionCall).map(...)\<close>; \<open>fresh\<close> is the random identifier\<close>
  "tool_calls_of stringify fresh parts =
     map (\<lambda>fc. \<lparr>tc_id = Some (or_str (fc_id fc) fresh), tc_name = fc_name fc,
                tc_arguments = stringify (case fc_args fc of None \<Rightarrow> JObj []
                                           | Some a \<Rightarrow> if truthy a then a else JObj [])\<rparr>)
       (List.map_filter part_functionCall parts)"

definition text_of :: "part_in list \<Rightarrow> string" where
  \<comment> \<open>\<open>parts.filter(part => part.text).map(part => part.text).join("\n")\<close>\<close>
  "text_of parts =
     join [CHR 0x0A] (map part_text (filter (\<lambda>p. or_str (part_text p) [] \<noteq> []) parts))"

definition usage_of :: "gemini_response \<Rightarrow> js_error + gemini_usage" where
  "usage_of r =
     (case gr_usageMetadata r of
        None \<Rightarrow> Inl TypeError
      | Some u \<Rightarrow> Inr \<lparr>gu_completion_tokens = um_candidatesTokenCount u,
                       gu_prompt_tokens = um_promptTokenCount u,
                       gu_total_tokens = um_totalTokenCount u\<rparr>)"

subsection \<open>Non-stream response\<close>

definition gemini_json_response ::
  "(json \<Rightarrow> string) \<Rightarrow> string \<Rightarrow> nat \<Rightarrow> gemini_envelope \<Rightarrow> js_error + gemini_completion" where
  "gemini_json_response stringify fresh now env =
     (case env_response env of
        None \<Rightarrow> Inl TypeError
      | Some jsonResponse \<Rightarrow>
          (case first_parts jsonResponse of
             Inl e \<Rightarrow> Inl e
           | Inr (cand, parts) \<Rightarrow>
               (case usage_of jsonResponse of
                  Inl e \<Rightarrow> Inl e
                | Inr u \<Rightarrow>
                    (let tool_calls = tool_calls_of stringify fresh parts
                     in Inr \<lparr>gco_id = gr_responseId jsonResponse,
                             gco_finish_reason = finish_reason_of cand,
                             gco_message = \<lparr>m_role = ''assistant'', m_content = text_of parts,
                                m_reasoning_content = None,
                                m_tool_calls = (if length tool_calls > 0 then Some tool_calls
                                                else None)\<rparr>,
                             gco_created = now div 1000,
                             gco_model = gr_modelVersion jsonResponse,
                             gco_object = ''chat.completion'',
                             gco_usage = u\<rparr>))))"

subsection \<open>Stream response\<close>

text \<open>
  As for the Anthropic-style stream, the upstream body is the list of text deliveries before
  the reader reports \<open>done\<close>, and \<open>JSON.parse\<close> followed by the typed view is the parameter
  \<open>parse\<close>. The debug log call that precedes the \<open>try\<close> is taken to return: the logger is
  installed by the host.
\<close>

definition annotation_of ::
  "grounding_support_in list option \<Rightarrow> grounding_chunk_in \<Rightarrow> nat \<Rightarrow> js_error + annotation" where
  \<comment> \<open>the callback of \<open>groundingChunks.map\<close>\<close>
  "annotation_of supports groundingChunk index =
     (case (case supports of
              None \<Rightarrow> Inr None
            | Some items \<Rightarrow>
                (case those (map gs_groundingChunkIndices items) of
                   None \<Rightarrow> Inl TypeError
                 | Some _ \<Rightarrow>
                     Inr (Some (filter (\<lambda>item. index \<in> set (case gs_groundingChunkIndices item of
                                                              None \<Rightarrow> [] | Some is \<Rightarrow> is)) items)))) of
        Inl e \<Rightarrow> Inl e
      | Inr support \<Rightarrow>
          (case gc_web groundingChunk of
             None \<Rightarrow> Inl TypeError
           | Some web \<Rightarrow>
               (case support of
                  None \<Rightarrow> Inr \<lparr>ann_url = web_uri web, ann_title = web_title web,
                                ann_content = None, ann_start_index = None, ann_end_index = None\<rparr>
                | Some [] \<Rightarrow> Inl TypeError
                | Some (first # _) \<Rightarrow>
                    (case gs_segment first of
                       None \<Rightarrow> Inl TypeError
                     | Some seg \<Rightarrow>
                         Inr \<lparr>ann_url = web_uri web, ann_title = web_title web,
                              ann_content = seg_text seg, ann_start_index = seg_startIndex seg,
                              ann_end_index = seg_endIndex seg\<rparr>))))"

fun annotations_from ::
  "grounding_support_in list option \<Rightarrow> grounding_chunk_in list \<Rightarrow> nat \<Rightarrow> js_error + annotation list" where
  "annotations_from supports [] index = Inr []"
| "annotations_from supports (g # gs) index =
     (case annotation_of supports g index of
        Inl e \<Rightarrow> Inl e
      | Inr a \<Rightarrow> (case annotations_from supports gs (Suc index) of
                    Inl e \<Rightarrow> Inl e
                  | Inr as \<Rightarrow> Inr (a # as)))"

definition annotations_of :: "candidate_in \<Rightarrow> js_error + annotation list option" where
  \<comment> \<open>\<open>if (groundingMetadata?.groundingChunks?.length) delta.annotations = ...\<close>\<close>
  "annotations_of cand =
     (case cand_groundingMetadata cand of
        None \<Rightarrow> Inr None
      | Some gm \<Rightarrow>
          (case gm_groundingChunks gm of
             None \<Rightarrow> Inr None
           | Some [] \<Rightarrow> Inr None
           | Some gs \<Rightarrow> (case annotations_from (gm_groundingSupports gm) gs 0 of
                          Inl e \<Rightarrow> Inl e
                        | Inr as \<Rightarrow> Inr (Some as))))"

definition gemini_stream_chunk ::
  "(json \<Rightarrow> string) \<Rightarrow> string \<Rightarrow> nat \<Rightarrow> gemini_envelope \<Rightarrow> js_error + gemini_chunk" where
  \<comment> \<open>the body of the \<open>try\<close> in \<open>processLine\<close>, from the parsed line on\<close>
  "gemini_stream_chunk stringify fresh now env =
     (case env_response env of
        None \<Rightarrow> Inl TypeError
      | Some chunk \<Rightarrow>
          (case first_parts chunk of
             Inl e \<Rightarrow> Inl e
           | Inr (cand, parts) \<Rightarrow>
               (case usage_of chunk of
                  Inl e \<Rightarrow> Inl e
                | Inr u \<Rightarrow>
                    (case annotations_of cand of
                       Inl e \<Rightarrow> Inl e
                     | Inr anns \<Rightarrow>
                         (let tool_calls = tool_calls_of stringify fresh parts
                          in Inr \<lparr>gch_delta = \<lparr>gd_role = Some ''assistant'',
                                     gd_content = Some (text_of parts),
                                     gd_tool_calls = (if length tool_calls > 0 then Some tool_calls
                                                      else None),
                                     gd_annotations = anns\<rparr>,
                                  gch_finish_reason = finish_reason_of cand,
                                  gch_index = (if or_nat (cand_index cand) 0 \<noteq> 0 \<or> length tool_calls > 0
                                               then 1 else 0),
                                  gch_created = now div 1000,
                                  gch_id = or_str (gr_responseId chunk) [],
                                  gch_model = or_str (gr_modelVersion chunk) [],
                                  gch_object = ''chat.completion.chunk'',
                                  gch_system_fingerprint = ''fp_a49d71b8a1'',
                                  gch_usage = u\<rparr>)))))"

definition processLine ::
  "(string \<Rightarrow> gemini_envelope option) \<Rightarrow> (json \<Rightarrow> string) \<Rightarrow> string \<Rightarrow> nat \<Rightarrow> string \<Rightarrow> gemini_chunk list" where
  \<comment> \<open>the chunks enqueued for one line; a throw inside the \<open>try\<close> is logged and nothing is
      enqueued\<close>
  "processLine parse stringify fresh now line =
     (if startsWith line ''data: ''
      then (let chunkStr = trim (drop 6 line)
            in if chunkStr \<noteq> []
               then (case parse chunkStr of
                       None \<Rightarrow> []
                     | Some env \<Rightarrow> (case gemini_stream_chunk stringify fresh now env of
                                      Inl e \<Rightarrow> [] | Inr c \<Rightarrow> [c]))
               else [])
      else [])"

fun gemini_stream_loop ::
  "(string \<Rightarrow> gemini_envelope option) \<Rightarrow> (json \<Rightarrow> string) \<Rightarrow> string \<Rightarrow> nat \<Rightarrow>
     string list \<Rightarrow> string \<Rightarrow> gemini_chunk list" where
  \<comment> \<open>on \<open>done\<close> a non-empty buffer is processed as a line before the loop is left\<close>
  "gemini_stream_loop parse stringify fresh now [] buffer =
     (if buffer \<noteq> [] then processLine parse stringify fresh now buffer else [])"
| "gemini_stream_loop parse stringify fresh now (v # reads) buffer =
     (let lines = split_nl (buffer @ v)
      in concat (map (processLine parse stringify fresh now) (butlast lines)) @
         gemini_stream_loop parse stringify fresh now reads (last lines))"

definition gemini_stream ::
  "(string \<Rightarrow> gemini_envelope option) \<Rightarrow> (json \<Rightarrow> string) \<Rightarrow> string \<Rightarrow> nat \<Rightarrow> string list \<Rightarrow> gemini_chunk list" where
  "gemini_stream parse stringify fresh now reads =
     gemini_stream_loop parse stringify fresh now reads []"

section \<open>Properties of the transcoders\<close>

subsection \<open>Shapes of events and chunks named by the properties\<close>

definition is_text_delta :: "event \<Rightarrow> string \<Rightarrow> bool" where
  \<comment> \<open>a \<open>content_block_delta\<close> event whose delta is a \<open>text_delta\<close> with the fragment \<open>f\<close>\<close>
  "is_text_delta ev f = (ev_type ev = Some ''content_block_delta'' \<and>
     (case ev_delta ev of None \<Rightarrow> False
      | Some d \<Rightarrow> dl_type d = Some ''text_delta'' \<and> dl_text d = Some f))"

definition is_input_json_delta :: "event \<Rightarrow> string \<Rightarrow> bool" where
  "is_input_json_delta ev p = (ev_type ev = Some ''content_block_delta'' \<and>
     (case ev_delta ev of None \<Rightarrow> False
      | Some d \<Rightarrow> dl_type d = Some ''input_json_delta'' \<and> dl_partial_json d = Some p))"

definition is_tool_use_start :: "event \<Rightarrow> content_block_in \<Rightarrow> bool" where
  "is_tool_use_start ev b = (ev_type ev = Some ''content_block_start'' \<and>
     ev_content_block ev = Some b \<and> cb_type b = Some ''tool_use'')"

definition content_of :: "chunk \<Rightarrow> string" where
  \<comment> \<open>the text a chunk contributes to the assistant message\<close>
  "content_of c = (case d_content (chunk_delta c) of None \<Rightarrow> [] | Some s \<Rightarrow> s)"

definition entry_grows :: "tool_call \<Rightarrow> tool_call \<Rightarrow> bool" where
  "entry_grows old new = (tc_id new = tc_id old \<and> tc_name new = tc_name old \<and>
     prefix (tc_arguments old) (tc_arguments new))"

definition buffer_extends :: "tool_call list \<Rightarrow> tool_call list \<Rightarrow> bool" where
  \<comment> \<open>every old entry is still at its index, with the same id and name and with arguments
      that only grew\<close>
  "buffer_extends old new = (length old \<le> length new \<and>
     list_all2 entry_grows old (take (length old) new))"

definition start_delta :: "nat \<Rightarrow> content_block_in \<Rightarrow> delta_out" where
  \<comment> \<open>the delta announcing the tool call at index \<open>i\<close>\<close>
  "start_delta i b = empty_delta_out\<lparr>d_tool_calls := Some
     [\<lparr>tcd_index = int i, tcd_id = cb_id b, tcd_type = Some ''function'',
       tcd_name = cb_name b, tcd_arguments = Some []\<rparr>]\<rparr>"

definition fragment_delta :: "nat \<Rightarrow> string \<Rightarrow> delta_out" where
  \<comment> \<open>the delta carrying only the fragment \<open>p\<close> for the tool call at index \<open>i\<close>\<close>
  "fragment_delta i p = empty_delta_out\<lparr>d_tool_calls := Some
     [\<lparr>tcd_index = int i, tcd_id = None, tcd_type = None, tcd_name = None,
       tcd_arguments = Some p\<rparr>]\<rparr>"

definition sample_text_event :: "string \<Rightarrow> event" where
  "sample_text_event f = \<lparr>ev_type = Some ''content_block_delta'', ev_index = Some 0,
     ev_message = None, ev_content_block = None,
     ev_delta = Some (empty_delta\<lparr>dl_type := Some ''text_delta'', dl_text := Some f\<rparr>),
     ev_usage = None\<rparr>"

definition sample_json_event :: "string \<Rightarrow> event" where
  "sample_json_event p = \<lparr>ev_type = Some ''content_block_delta'', ev_index = Some 0,
     ev_message = None, ev_content_block = None,
     ev_delta = Some (empty_delta\<lparr>dl_type := Some ''input_json_delta'',
                                   dl_partial_json := Some p\<rparr>),
     ev_usage = None\<rparr>"

definition sample_tool_block :: content_block_in where
  "sample_tool_block = \<lparr>cb_type = Some ''tool_use'', cb_id = Some ''t1'',
     cb_name = Some ''get_weather''\<rparr>"

definition sample_tool_start :: event where
  "sample_tool_start = \<lparr>ev_type = Some ''content_block_start'', ev_index = Some 0,
     ev_message = None, ev_content_block = Some sample_tool_block, ev_delta = None,
     ev_usage = None\<rparr>"

definition text_blocks :: "response_in \<Rightarrow> string list" where
  \<comment> \<open>the texts of the text-type content blocks of a document, in document order\<close>
  "text_blocks data =
     map (\<lambda>b. case blk_text b of None \<Rightarrow> [] | Some t \<Rightarrow> t)
       (filter (\<lambda>b. blk_type b = Some ''text'')
          (case rsp_content data of None \<Rightarrow> [] | Some blocks \<Rightarrow> blocks))"

definition text_parts :: "part_in list \<Rightarrow> string list" where
  \<comment> \<open>the non-empty texts of the parts of a candidate, in document order\<close>
  "text_parts parts =
     filter (\<lambda>t. t \<noteq> []) (map (\<lambda>p. case part_text p of None \<Rightarrow> [] | Some t \<Rightarrow> t) parts)"

fun joined_with_newlines :: "string list \<Rightarrow> string" where
  \<comment> \<open>the texts concatenated with a newline between neighbours\<close>
  "joined_with_newlines [] = []"
| "joined_with_newlines [t] = t"
| "joined_with_newlines (t # u # ts) = t @ [CHR 0x0A] @ joined_with_newlines (u # ts)"

definition sample_text_block :: "string \<Rightarrow> block_in" where
  "sample_text_block t = \<lparr>blk_type = Some ''text'', blk_text = Some t, blk_thinking = [],
     blk_id = None, blk_name = None, blk_input = None\<rparr>"

definition sample_document :: response_in where
  "sample_document = \<lparr>rsp_id = Some ''msg_1'', rsp_model = Some ''m1'',
     rsp_stop_reason = Some ''end_turn'', rsp_usage = None,
     rsp_content = Some [sample_text_block ''a'', sample_text_block ''b'']\<rparr>"

definition sample_message_delta :: "string \<Rightarrow> event" where
  "sample_message_delta r = \<lparr>ev_type = Some ''message_delta'', ev_index = None,
     ev_message = None, ev_content_block = None,
     ev_delta = Some (empty_delta\<lparr>dl_stop_reason := Some r\<rparr>),
     ev_usage = Some \<lparr>input_tokens = None, output_tokens = Some 2\<rparr>\<rparr>"

definition sample_part :: "string \<Rightarrow> part_in" where
  "sample_part t = \<lparr>part_text = Some t, part_functionCall = None\<rparr>"

definition sample_gemini_response :: "string list \<Rightarrow> gemini_response" where
  "sample_gemini_response ts = \<lparr>
     gr_candidates = Some [\<lparr>cand_content = Some \<lparr>cnt_parts = Some (map sample_part ts)\<rparr>,
        cand_finishReason = Some ''STOP'', cand_index = None, cand_groundingMetadata = None\<rparr>],
     gr_responseId = Some ''r1'', gr_modelVersion = Some ''g1'',
     gr_usageMetadata = Some \<lparr>um_candidatesTokenCount = Some 1, um_promptTokenCount = Some 1,
        um_totalTokenCount = Some 2\<rparr>\<rparr>"




definition gemini_payload_hi :: string where
  "gemini_payload_hi =
     ''{\"response\":{\"candidates\":[{\"content\":{\"parts\":[{\"text\":\"Hi\"}]}}],\"usageMetadata\":{}}}''"

definition gemini_payload_there :: string where
  "gemini_payload_there =
     ''{\"response\":{\"candidates\":[{\"content\":{\"parts\":[{\"text\":\" there\"}]}}],\"usageMetadata\":{}}}''"

definition sample_gemini_envelope :: "string \<Rightarrow> gemini_envelope" where
  \<comment> \<open>the typed view of the two payloads above, with the text \<open>t\<close>\<close>
  "sample_gemini_envelope t = \<lparr>env_response = Some \<lparr>
     gr_candidates = Some [\<lparr>cand_content = Some \<lparr>cnt_parts = Some
          [\<lparr>part_text = Some t, part_functionCall = None\<rparr>]\<rparr>,
        cand_finishReason = None, cand_index = None, cand_groundingMetadata = None\<rparr>],
     gr_responseId = None, gr_modelVersion = None,
     gr_usageMetadata = Some \<lparr>um_candidatesTokenCount = None, um_promptTokenCount = None,
        um_totalTokenCount = None\<rparr>\<rparr>\<rparr>"

definition sample_gemini_parse :: "string \<Rightarrow> gemini_envelope option" where
  \<comment> \<open>\<open>JSON.parse\<close> on the two payloads\<close>
  "sample_gemini_parse s =
     (if s = gemini_payload_hi then Some (sample_gemini_envelope ''Hi'')
      else if s = gemini_payload_there then Some (sample_gemini_envelope '' there'')
      else None)"

definition payload_message_delta :: string where
  "payload_message_delta =
     ''{\"type\":\"message_delta\",\"delta\":{\"stop_reason\":\"end_turn\"},\"usage\":{\"output_tokens\":2}}''"

definition sample_parse :: "string \<Rightarrow> event option" where
  \<comment> \<open>\<open>JSON.parse\<close> on the payload above\<close>
  "sample_parse s =
     (if s = payload_message_delta then Some (sample_message_delta ''end_turn'') else None)"

definition sample_message_start :: event where
  "sample_message_start = \<lparr>ev_type = Some ''message_start'', ev_index = None,
     ev_message = Some \<lparr>msg_id = Some ''msg_1'', msg_model = Some ''m1'', msg_usage = None\<rparr>,
     ev_content_block = None, ev_delta = None, ev_usage = None\<rparr>"

subsection \<open>Stream handler: text and tool-argument fragments\<close>

lemma sync_state_same [simp]: "sync_state s s = s"
  by (cases s) (simp add: sync_state_def split: option.splits)

lemma or_str_Some [simp]: "or_str (Some f) [] = f"
  by (simp add: or_str_def)

lemma mk_chunk_buffer [simp]:
  "mk_chunk now (t\<lparr>toolCallsBuffer := b\<rparr>) d fr u = mk_chunk now t d fr u"
  by (simp add: mk_chunk_def)

lemma sync_state_buffer [simp]:
  "sync_state t (t\<lparr>toolCallsBuffer := b\<rparr>) = t\<lparr>toolCallsBuffer := b\<rparr>"
  by (cases t) (simp add: sync_state_def split: option.splits)

lemma handle_text_delta:
  assumes "is_text_delta ev f"
  shows "handle_event now ev s =
    ([mk_chunk now s (empty_delta_out\<lparr>d_content := Some f\<rparr>) None None], s)"
  using assms
  by (auto simp: is_text_delta_def handle_event_def processSSEEvent_def
      on_content_block_delta_def split: option.splits)

lemma process_text_deltas:
  "list_all2 is_text_delta evs fs \<Longrightarrow>
   process_events now evs s =
     (map (\<lambda>f. mk_chunk now s (empty_delta_out\<lparr>d_content := Some f\<rparr>) None None) fs, s)"
proof (induction evs fs rule: list_all2_induct)
  case Nil
  then show ?case by simp
next
  case (Cons ev evs f fs)
  then show ?case by (simp add: handle_text_delta)
qed

text \<open>
  C1. A sequence of text-delta events with fragments \<open>f1..fn\<close> yields exactly one chunk per
  fragment, in arrival order, each carrying its fragment as \<open>delta.content\<close>; the
  concatenation of the emitted contents is \<open>f1 + ... + fn\<close>, and the stream state is left
  as it was.
\<close>

theorem text_deltas_order_preserved:
  assumes "list_all2 is_text_delta evs fs"
  shows "map (\<lambda>c. d_content (chunk_delta c)) (fst (process_events now evs s)) = map Some fs
     \<and> concat (map content_of (fst (process_events now evs s))) = concat fs
     \<and> snd (process_events now evs s) = s"
proof -
  have "concat (map content_of
          (map (\<lambda>f. mk_chunk now s (empty_delta_out\<lparr>d_content := Some f\<rparr>) None None) fs))
        = concat fs"
    by (induction fs) (simp_all add: content_of_def mk_chunk_def)
  then show ?thesis
    using process_text_deltas [OF assms, of now s]
    by (simp add: o_def mk_chunk_def)
qed

theorem text_deltas_order_preserved_witness:
  "map (\<lambda>c. d_content (chunk_delta c))
     (fst (process_events 0 [sample_text_event ''Hi'', sample_text_event '' there''] initial_state))
     = [Some ''Hi'', Some '' there'']
   \<and> concat (map content_of
        (fst (process_events 0 [sample_text_event ''Hi'', sample_text_event '' there''] initial_state)))
     = ''Hi there''
   \<and> snd (process_events 0 [sample_text_event ''Hi'', sample_text_event '' there''] initial_state)
     = initial_state"
proof -
  have h: "list_all2 is_text_delta [sample_text_event ''Hi'', sample_text_event '' there'']
             [''Hi'', '' there'']"
    by (simp add: is_text_delta_def sample_text_event_def empty_delta_def)
  show ?thesis
    using text_deltas_order_preserved [OF h, of 0 initial_state] by simp
qed

lemma append_arguments_snoc [simp]:
  "append_arguments (xs @ [x]) (int (length xs)) frag =
     Some (xs @ [x\<lparr>tc_arguments := tc_arguments x @ frag\<rparr>])"
  by (simp add: append_arguments_def)

lemma entry_grows_refl [simp]: "entry_grows e e"
  by (simp add: entry_grows_def)

lemma entry_grows_trans: "entry_grows a b \<Longrightarrow> entry_grows b c \<Longrightarrow> entry_grows a c"
  by (auto simp: entry_grows_def)

lemma buffer_extends_refl [simp]: "buffer_extends b b"
  by (simp add: buffer_extends_def list_all2_refl)

lemma buffer_extends_nth:
  "buffer_extends old new \<longleftrightarrow>
     length old \<le> length new \<and> (\<forall>i<length old. entry_grows (old ! i) (new ! i))"
  by (auto simp: buffer_extends_def list_all2_conv_all_nth)

lemma buffer_extends_trans:
  "buffer_extends a b \<Longrightarrow> buffer_extends b c \<Longrightarrow> buffer_extends a c"
  unfolding buffer_extends_nth
  by (meson entry_grows_trans le_trans less_le_trans)

lemma buffer_extends_append [simp]: "buffer_extends b (b @ xs)"
  by (simp add: buffer_extends_nth nth_append)

lemma buffer_extends_last:
  "buffer_extends (xs @ [x]) (xs @ [x\<lparr>tc_arguments := tc_arguments x @ frag\<rparr>])"
  by (auto simp: buffer_extends_nth nth_append entry_grows_def)

lemma on_content_block_delta_total: "on_content_block_delta now ev s \<noteq> None"
proof (cases "toolCallsBuffer s = []")
  case True
  then show ?thesis by (simp add: on_content_block_delta_def Let_def)
next
  case False
  then obtain xs x where "toolCallsBuffer s = xs @ [x]" by (metis append_butlast_last_id)
  then show ?thesis
    by (simp add: on_content_block_delta_def Let_def)
qed

lemma processSSEEvent_total: "processSSEEvent now ev s \<noteq> None"
  using on_content_block_delta_total [of now ev s] by (auto simp: processSSEEvent_def)

lemma handle_input_json_delta:
  assumes "is_input_json_delta ev p" and "toolCallsBuffer t = xs @ [x]"
  shows "handle_event now ev t =
    ([mk_chunk now t (fragment_delta (length xs) p) None None],
     t\<lparr>toolCallsBuffer := xs @ [x\<lparr>tc_arguments := tc_arguments x @ p\<rparr>]\<rparr>)"
proof -
  obtain d where d: "ev_delta ev = Some d" "dl_type d = Some ''input_json_delta''"
    "dl_partial_json d = Some p" and ty: "ev_type ev = Some ''content_block_delta''"
    using assms(1) by (auto simp: is_input_json_delta_def split: option.splits)
  have "on_content_block_delta now ev t =
    Some [Chunk (mk_chunk now t (fragment_delta (length xs) p) None None),
          StateRef (t\<lparr>toolCallsBuffer := xs @ [x\<lparr>tc_arguments := tc_arguments x @ p\<rparr>]\<rparr>)]"
    using d assms(2)
    by (simp add: on_content_block_delta_def Let_def fragment_delta_def)
  then show ?thesis
    using ty by (simp add: handle_event_def processSSEEvent_def)
qed

lemma process_input_json_deltas:
  "list_all2 is_input_json_delta evs ps \<Longrightarrow> toolCallsBuffer t = xs @ [x] \<Longrightarrow>
   process_events now evs t =
     (map (\<lambda>p. mk_chunk now t (fragment_delta (length xs) p) None None) ps,
      t\<lparr>toolCallsBuffer := xs @ [x\<lparr>tc_arguments := tc_arguments x @ concat ps\<rparr>]\<rparr>)"
proof (induction evs ps arbitrary: t x rule: list_all2_induct)
  case Nil
  then show ?case by simp
next
  case (Cons ev evs p ps)
  let ?t' = "t\<lparr>toolCallsBuffer := xs @ [x\<lparr>tc_arguments := tc_arguments x @ p\<rparr>]\<rparr>"
  have h: "handle_event now ev t =
    ([mk_chunk now t (fragment_delta (length xs) p) None None], ?t')"
    using Cons.hyps(1) Cons.prems by (rule handle_input_json_delta)
  have "toolCallsBuffer ?t' = xs @ [x\<lparr>tc_arguments := tc_arguments x @ p\<rparr>]" by simp
  from Cons.IH [OF this] show ?case
    by (simp add: h)
qed

lemma handle_tool_use_start:
  assumes "is_tool_use_start ev b"
  shows "\<exists>t. handle_event now ev s = ([mk_chunk now s (start_delta (length (toolCallsBuffer s)) b) None None], t)
    \<and> toolCallsBuffer t = toolCallsBuffer s @ [\<lparr>tc_id = cb_id b, tc_name = cb_name b, tc_arguments = []\<rparr>]
    \<and> messageId t = messageId s \<and> model t = model s"
  using assms
  by (simp add: is_tool_use_start_def handle_event_def processSSEEvent_def
      on_content_block_start_def Let_def start_delta_def sync_state_def mk_chunk_def)

lemma handle_event_extends:
  "buffer_extends (toolCallsBuffer s) (toolCallsBuffer (snd (handle_event now ev s)))"
proof -
  have delta: "buffer_extends (toolCallsBuffer s)
      (toolCallsBuffer (snd (case on_content_block_delta now ev s of None \<Rightarrow> ([], s)
                              | Some items \<Rightarrow> consume items s)))"
  proof (cases "toolCallsBuffer s = []")
    case True
    then show ?thesis
      by (simp add: on_content_block_delta_def Let_def sync_state_def)
  next
    case False
    then obtain xs x where "toolCallsBuffer s = xs @ [x]" by (metis append_butlast_last_id)
    then show ?thesis
      by (simp add: on_content_block_delta_def Let_def sync_state_def
          buffer_extends_last)
  qed
  show ?thesis
    using delta
    by (simp add: handle_event_def processSSEEvent_def on_message_start_def
        on_content_block_start_def on_message_delta_def Let_def sync_state_def)
qed

lemma process_events_extends:
  "buffer_extends (toolCallsBuffer s) (toolCallsBuffer (snd (process_events now evs s)))"
proof (induction evs arbitrary: s)
  case Nil
  then show ?case by simp
next
  case (Cons ev evs)
  obtain cs t where h: "handle_event now ev s = (cs, t)" by (cases "handle_event now ev s")
  have 1: "buffer_extends (toolCallsBuffer s) (toolCallsBuffer t)"
    using handle_event_extends [of s now ev] h by simp
  show ?case using buffer_extends_trans [OF 1 Cons.IH [of t]] h
    by (auto split: prod.splits)
qed

text \<open>
  C2. After a \<open>tool_use\<close> block start, the fragments \<open>p1..pn\<close> of the following
  \<open>input_json_delta\<close> events are appended in arrival order to the arguments of the entry
  the start appended: the buffer ends as the old buffer followed by that entry with arguments
  \<open>p1 + ... + pn\<close>; the chunks emitted are the announcement and then one chunk per fragment,
  carrying only that fragment and the entry's index. Over any event sequence from any state
  no entry of the buffer is removed or moved, and its arguments only grow.
\<close>

theorem tool_arguments_round_trip:
  assumes "is_tool_use_start ev0 b" and "list_all2 is_input_json_delta evs ps"
  shows "toolCallsBuffer (snd (process_events now (ev0 # evs) s)) =
           toolCallsBuffer s @ [\<lparr>tc_id = cb_id b, tc_name = cb_name b, tc_arguments = concat ps\<rparr>]
       \<and> map chunk_delta (fst (process_events now (ev0 # evs) s)) =
           start_delta (length (toolCallsBuffer s)) b #
           map (fragment_delta (length (toolCallsBuffer s))) ps
       \<and> buffer_extends (toolCallsBuffer s') (toolCallsBuffer (snd (process_events now evs' s')))"
proof -
  obtain t where t: "handle_event now ev0 s =
      ([mk_chunk now s (start_delta (length (toolCallsBuffer s)) b) None None], t)"
    and buf: "toolCallsBuffer t =
      toolCallsBuffer s @ [\<lparr>tc_id = cb_id b, tc_name = cb_name b, tc_arguments = []\<rparr>]"
    using handle_tool_use_start [OF assms(1)] by blast
  show ?thesis
    using process_input_json_deltas [OF assms(2) buf, of now] t
      process_events_extends [of s' now evs']
    by (simp add: mk_chunk_def o_def)
qed

theorem tool_arguments_round_trip_witness:
  "toolCallsBuffer (snd (process_events 0
       [sample_tool_start, sample_json_event ''{city:'', sample_json_event ''Seoul}'']
       initial_state)) =
     [\<lparr>tc_id = Some ''t1'', tc_name = Some ''get_weather'', tc_arguments = ''{city:Seoul}''\<rparr>]
   \<and> map chunk_delta (fst (process_events 0
       [sample_tool_start, sample_json_event ''{city:'', sample_json_event ''Seoul}'']
       initial_state)) =
     [start_delta 0 sample_tool_block, fragment_delta 0 ''{city:'', fragment_delta 0 ''Seoul}'']
   \<and> buffer_extends [] (toolCallsBuffer (snd (process_events 0 [sample_tool_start] initial_state)))"
proof -
  have h1: "is_tool_use_start sample_tool_start sample_tool_block"
    by (simp add: is_tool_use_start_def sample_tool_start_def sample_tool_block_def)
  have h2: "list_all2 is_input_json_delta
      [sample_json_event ''{city:'', sample_json_event ''Seoul}''] [''{city:'', ''Seoul}'']"
    by (simp add: is_input_json_delta_def sample_json_event_def empty_delta_def)
  show ?thesis
    using tool_arguments_round_trip [OF h1 h2, where now = 0 and s = initial_state
        and s' = initial_state and evs' = "[sample_tool_start]"]
    by (simp add: initial_state_def sample_tool_block_def)
qed

text \<open>
  C10. An \<open>input_json_delta\<close> event that arrives while the ToolCallBuffer is empty makes
  the handler return only the reference to the unchanged state: no chunk is emitted and the
  consumer's state stays as it was. For every event and state the handler returns: the read
  of the buffer entry never falls outside the buffer.
\<close>

theorem input_json_delta_on_empty_buffer:
  "(is_input_json_delta ev p \<and> toolCallsBuffer s = [] \<longrightarrow>
      processSSEEvent now ev s = Some [StateRef s] \<and> handle_event now ev s = ([], s))
   \<and> processSSEEvent now ev' s' \<noteq> None"
proof -
  have "processSSEEvent now ev s = Some [StateRef s]"
    if "is_input_json_delta ev p" "toolCallsBuffer s = []"
    using that
    by (auto simp: is_input_json_delta_def processSSEEvent_def on_content_block_delta_def
        split: option.splits)
  then show ?thesis
    by (simp add: processSSEEvent_total handle_event_def)
qed

theorem input_json_delta_on_empty_buffer_witness:
  "processSSEEvent 0 (sample_json_event ''{}'') initial_state = Some [StateRef initial_state]
   \<and> handle_event 0 (sample_json_event ''{}'') initial_state = ([], initial_state)
   \<and> processSSEEvent 0 sample_tool_start initial_state \<noteq> None"
proof -
  have h: "is_input_json_delta (sample_json_event ''{}'') ''{}'' \<and> toolCallsBuffer initial_state = []"
    by (simp add: is_input_json_delta_def sample_json_event_def empty_delta_def initial_state_def)
  show ?thesis
    using h input_json_delta_on_empty_buffer
      [of "sample_json_event ''{}''" "''{}''" initial_state 0 sample_tool_start initial_state]
    by simp
qed

subsection \<open>Finish reason\<close>

text \<open>
  C3 as stated fails at the empty string: \<open>stopReason || null\<close> maps it to \<open>null\<close>, it does
  not pass through.
\<close>

theorem mapStopReason_empty_string: "mapStopReason (Some []) \<noteq> Some []"
  by (simp add: mapStopReason_def)

text \<open>
  C3, amended. \<open>_mapStopReason\<close> is a total function of its argument: \<open>end_turn\<close> gives
  \<open>stop\<close>, \<open>max_tokens\<close> gives \<open>length\<close>, \<open>tool_use\<close> gives \<open>tool_calls\<close>,
  \<open>stop_sequence\<close> gives \<open>stop\<close>, every other non-empty string passes through unchanged,
  and \<open>null\<close>, an absent value and the empty string give \<open>null\<close>. The non-stream transcoder
  applies it to the document's \<open>stop_reason\<close>, the stream handler to the \<open>stop_reason\<close> of a
  \<open>message_delta\<close> event.
\<close>

theorem mapStopReason_table:
  "mapStopReason (Some ''end_turn'') = Some ''stop''
   \<and> mapStopReason (Some ''max_tokens'') = Some ''length''
   \<and> mapStopReason (Some ''tool_use'') = Some ''tool_calls''
   \<and> mapStopReason (Some ''stop_sequence'') = Some ''stop''
   \<and> mapStopReason None = None
   \<and> mapStopReason (Some []) = None
   \<and> (x \<noteq> [] \<and> x \<notin> {''end_turn'', ''max_tokens'', ''tool_use'', ''stop_sequence''}
        \<longrightarrow> mapStopReason (Some x) = Some x)
   \<and> r_finish_reason (transformJsonResponse stringify now data) = mapStopReason (rsp_stop_reason data)
   \<and> (ev_type ev = Some ''message_delta'' \<longrightarrow>
        map chunk_finish_reason (fst (handle_event now ev st)) =
          [mapStopReason (dl_stop_reason (case ev_delta ev of None \<Rightarrow> empty_delta | Some d \<Rightarrow> d))])"
proof -
  have "map chunk_finish_reason (fst (handle_event now ev st)) =
          [mapStopReason (dl_stop_reason (case ev_delta ev of None \<Rightarrow> empty_delta | Some d \<Rightarrow> d))]"
    if "ev_type ev = Some ''message_delta''"
    using that
    by (simp add: handle_event_def processSSEEvent_def on_message_delta_def Let_def mk_chunk_def)
  moreover have "r_finish_reason (transformJsonResponse stringify now data) =
      mapStopReason (rsp_stop_reason data)"
    by (simp add: transformJsonResponse_def Let_def)
  ultimately show ?thesis
    by (simp add: mapStopReason_def)
qed

theorem mapStopReason_table_witness:
  "mapStopReason (Some ''refusal'') = Some ''refusal''
   \<and> r_finish_reason (transformJsonResponse (\<lambda>j. []) 0 sample_document) = Some ''stop''
   \<and> map chunk_finish_reason (fst (handle_event 0 (sample_message_delta ''tool_use'') initial_state))
       = [Some ''tool_calls'']"
  using mapStopReason_table [of "''refusal''" "\<lambda>j. []" 0 sample_document
      "sample_message_delta ''tool_use''" initial_state]
  by (simp add: sample_document_def sample_message_delta_def empty_delta_def)

subsection \<open>Non-stream message content\<close>

lemma join_empty_sep: "join [] xs = concat (map (\<lambda>x. case x of None \<Rightarrow> [] | Some t \<Rightarrow> t) xs)"
  by (induction "[] :: string" xs rule: join.induct) simp_all

lemma join_newlines: "join [CHR 0x0A] (map Some ts) = joined_with_newlines ts"
  by (induction ts rule: joined_with_newlines.induct) simp_all

lemma truthy_parts_texts:
  "map part_text (filter (\<lambda>p. or_str (part_text p) [] \<noteq> []) parts) = map Some (text_parts parts)"
  by (induction parts) (auto simp: text_parts_def or_str_def split: option.splits)

lemma textParts_foldl:
  "textParts (foldl (collect_block stringify) acc blocks) =
     textParts acc @ map blk_text (filter (\<lambda>b. blk_type b = Some ''text'') blocks)"
  by (induction blocks arbitrary: acc) (simp_all add: collect_block_def)


text \<open>
  C9 as stated fails for the Anthropic-style transcoder: two text blocks \<open>a\<close> and \<open>b\<close> give
  the content \<open>ab\<close>, not \<open>a\<close>, newline, \<open>b\<close>.
\<close>

theorem claude_content_not_newline_joined:
  "m_content (r_message (transformJsonResponse (\<lambda>j. []) 0 sample_document))
     \<noteq> joined_with_newlines (text_blocks sample_document)"
  by (simp add: transformJsonResponse_def Let_def sample_document_def sample_text_block_def
      collect_block_def text_blocks_def)

text \<open>
  C9, amended. The Anthropic-style non-stream transcoder produces as message content the
  texts of all text-type content blocks in document order, concatenated with no separator.
  The Cloud-Code non-stream transcoder, when it produces a message, gives it the non-empty
  texts of the first candidate's parts in document order, joined with newline separators.
\<close>

theorem non_stream_content:
  "m_content (r_message (transformJsonResponse stringify now data)) = concat (text_blocks data)
   \<and> (gemini_json_response stringify fresh now env = Inr res \<longrightarrow>
        (\<exists>r cand parts. env_response env = Some r \<and> first_parts r = Inr (cand, parts) \<and>
           m_content (gco_message res) = joined_with_newlines (text_parts parts)))"
proof -
  have 1: "m_content (r_message (transformJsonResponse stringify now data)) = concat (text_blocks data)"
    by (simp add: transformJsonResponse_def Let_def textParts_foldl join_empty_sep text_blocks_def
        o_def)
  have 2: "\<exists>r cand parts. env_response env = Some r \<and> first_parts r = Inr (cand, parts) \<and>
           m_content (gco_message res) = joined_with_newlines (text_parts parts)"
    if "gemini_json_response stringify fresh now env = Inr res"
    using that
    by (auto simp: gemini_json_response_def text_of_def truthy_parts_texts join_newlines Let_def
        split: option.splits sum.splits prod.splits)
  from 1 2 show ?thesis by blast
qed

theorem non_stream_content_witness:
  "m_content (r_message (transformJsonResponse (\<lambda>j. []) 0 sample_document)) = ''ab''
   \<and> (\<exists>res. gemini_json_response (\<lambda>j. []) ''tool_0'' 0
               \<lparr>env_response = Some (sample_gemini_response [''a'', [], ''b''])\<rparr> = Inr res
        \<and> m_content (gco_message res) = ''a'' @ [CHR 0x0A] @ ''b'')"
proof -
  let ?env = "\<lparr>env_response = Some (sample_gemini_response [''a'', [], ''b''])\<rparr>"
  obtain res where res: "gemini_json_response (\<lambda>j. []) ''tool_0'' 0 ?env = Inr res"
    by (simp add: gemini_json_response_def sample_gemini_response_def first_parts_def
        usage_of_def Let_def)
  have parts: "first_parts (sample_gemini_response [''a'', [], ''b'']) =
      Inr (cand, parts) \<Longrightarrow> text_parts parts = [''a'', ''b'']" for cand parts
    by (auto simp: first_parts_def sample_gemini_response_def text_parts_def sample_part_def)
  show ?thesis
    using non_stream_content [of "\<lambda>j. []" 0 sample_document "''tool_0''" ?env res] res parts
    by (auto simp: text_blocks_def sample_document_def sample_text_block_def)
qed

subsection \<open>Tools of the Cloud-Code request\<close>





subsection \<open>Line framing\<close>

lemma split_nl_nonempty [simp]: "split_nl s \<noteq> []"
  by (induction s) (auto split: list.splits)

lemma split_nl_append:
  "split_nl (a @ b) = butlast (split_nl a) @ split_nl (last (split_nl a) @ b)"
proof (induction a)
  case Nil
  then show ?case by simp
next
  case (Cons c cs)
  show ?case
  proof (cases "c = CHR 0x0A")
    case True
    then show ?thesis using Cons by simp
  next
    case False
    obtain l ls where s: "split_nl cs = l # ls"
      by (cases "split_nl cs") simp_all
    show ?thesis
    proof (cases ls)
      case Nil
      then show ?thesis using False s Cons by (simp split: list.splits)
    next
      case (Cons l2 ls2)
      then show ?thesis using False s Cons.IH by (simp split: list.splits)
    qed
  qed
qed

lemma split_nl_no_newline: "CHR 0x0A \<notin> set s \<Longrightarrow> split_nl s = [s]"
  by (induction s) auto

lemma last_split_nl_no_newline: "CHR 0x0A \<notin> set (last (split_nl s))"
  by (induction s) (auto split: list.splits)

lemma butlast_split_nl_append:
  "butlast (split_nl (a @ b)) = butlast (split_nl a) @ butlast (split_nl (last (split_nl a) @ b))"
  by (subst split_nl_append) (simp add: butlast_append)

lemma last_split_nl_append:
  "last (split_nl (a @ b)) = last (split_nl (last (split_nl a) @ b))"
  by (subst split_nl_append) simp

lemma process_lines_append:
  "process_lines parse now (xs @ ys) cl =
     (case process_lines parse now xs cl of (cs, cl') \<Rightarrow>
        (case process_lines parse now ys cl' of (cs', cl'') \<Rightarrow> (cs @ cs', cl'')))"
  by (induction xs arbitrary: cl) (auto split: prod.splits)

lemma stream_loop_lines:
  "CHR 0x0A \<notin> set buffer \<Longrightarrow>
   stream_loop parse now reads buffer cl =
     map Data (fst (process_lines parse now (butlast (split_nl (buffer @ concat reads))) cl)) @ [Done]"
proof (induction reads arbitrary: buffer cl)
  case Nil
  then show ?case by (simp add: split_nl_no_newline)
next
  case (Cons v reads)
  obtain cs cl' where p: "process_lines parse now (butlast (split_nl (buffer @ v))) cl = (cs, cl')"
    by (cases "process_lines parse now (butlast (split_nl (buffer @ v))) cl")
  have "butlast (split_nl (buffer @ concat (v # reads))) =
      butlast (split_nl (buffer @ v)) @
      butlast (split_nl (last (split_nl (buffer @ v)) @ concat reads))"
    using butlast_split_nl_append [of "buffer @ v" "concat reads"] by simp
  then show ?case
    using Cons.IH [OF last_split_nl_no_newline, of "buffer @ v" cl'] p
    by (simp add: Let_def process_lines_append split: prod.splits)
qed

lemma gemini_stream_loop_lines:
  "CHR 0x0A \<notin> set buffer \<Longrightarrow>
   gemini_stream_loop parse stringify fresh now reads buffer =
     concat (map (processLine parse stringify fresh now) (butlast (split_nl (buffer @ concat reads)))) @
     (if last (split_nl (buffer @ concat reads)) \<noteq> []
      then processLine parse stringify fresh now (last (split_nl (buffer @ concat reads))) else [])"
proof (induction reads arbitrary: buffer)
  case Nil
  then show ?case by (simp add: split_nl_no_newline)
next
  case (Cons v reads)
  have b: "butlast (split_nl (buffer @ concat (v # reads))) =
      butlast (split_nl (buffer @ v)) @
      butlast (split_nl (last (split_nl (buffer @ v)) @ concat reads))"
    using butlast_split_nl_append [of "buffer @ v" "concat reads"] by simp
  have l: "last (split_nl (buffer @ concat (v # reads))) =
      last (split_nl (last (split_nl (buffer @ v)) @ concat reads))"
    using last_split_nl_append [of "buffer @ v" "concat reads"] by simp
  show ?case
    using Cons.IH [OF last_split_nl_no_newline, of "buffer @ v"]
    unfolding b l by (simp add: Let_def)
qed

text \<open>
  C5 holds for the Cloud-Code transcoder only. The Anthropic-style stream transcoders process
  the complete lines of the upstream text and nothing else: what follows the last newline is
  still in the buffer when the reader reports \<open>done\<close>, and the loop enqueues the sentinel and
  leaves without processing it. A final \<open>message_delta\<close> line that is not terminated by a
  newline is lost, while the same line followed by a newline yields the terminal chunk. The
  Cloud-Code transcoder processes a non-empty carried line before it closes the stream.
\<close>

theorem final_partial_line_not_processed:
  "transformStreamResponse parse now reads =
     map Data (fst (process_lines parse now (butlast (split_nl (concat reads))) initial_state)) @ [Done]
   \<and> transformStreamResponse sample_parse 0 [''data: '' @ payload_message_delta] = [Done]
   \<and> transformStreamResponse sample_parse 0 [''data: '' @ payload_message_delta @ [CHR 0x0A]] =
       [Data \<lparr>chunk_id = [], chunk_object = ''chat.completion.chunk'', chunk_created = 0,
               chunk_model = [], chunk_delta = empty_delta_out,
               chunk_finish_reason = Some ''stop'',
               chunk_usage = Some \<lparr>prompt_tokens = 0, completion_tokens = 2, total_tokens = 2\<rparr>\<rparr>,
        Done]
   \<and> gemini_stream gparse stringify fresh now reads =
       concat (map (processLine gparse stringify fresh now) (butlast (split_nl (concat reads)))) @
       (if last (split_nl (concat reads)) \<noteq> []
        then processLine gparse stringify fresh now (last (split_nl (concat reads))) else [])"
proof -
  have 1: "transformStreamResponse parse now reads =
     map Data (fst (process_lines parse now (butlast (split_nl (concat reads))) initial_state)) @ [Done]"
    using stream_loop_lines [of "[]" parse now reads initial_state]
    by (simp add: transformStreamResponse_def)
  have 2: "transformStreamResponse sample_parse 0 [''data: '' @ payload_message_delta] = [Done]"
    by code_simp
  have 3: "transformStreamResponse sample_parse 0 [''data: '' @ payload_message_delta @ [CHR 0x0A]] =
       [Data \<lparr>chunk_id = [], chunk_object = ''chat.completion.chunk'', chunk_created = 0,
               chunk_model = [], chunk_delta = empty_delta_out,
               chunk_finish_reason = Some ''stop'',
               chunk_usage = Some \<lparr>prompt_tokens = 0, completion_tokens = 2, total_tokens = 2\<rparr>\<rparr>,
        Done]"
    by code_simp
  have 4: "gemini_stream gparse stringify fresh now reads =
       concat (map (processLine gparse stringify fresh now) (butlast (split_nl (concat reads)))) @
       (if last (split_nl (concat reads)) \<noteq> []
        then processLine gparse stringify fresh now (last (split_nl (concat reads))) else [])"
    using gemini_stream_loop_lines [of "[]" gparse stringify fresh now reads]
    by (simp add: gemini_stream_def)
  from 1 2 3 4 show ?thesis by blast
qed

subsection \<open>Role in the stream\<close>

lemma handle_event_message_start:
  "ev_type ev = Some ''message_start'' \<Longrightarrow>
   \<exists>c. fst (handle_event now ev s) = [c] \<and> d_role (chunk_delta c) = Some ''assistant''"
  by (simp add: handle_event_def processSSEEvent_def on_message_start_def Let_def mk_chunk_def
      empty_delta_out_def)

lemma consume_chunks:
  "fst (consume items cl) = List.map_filter (\<lambda>i. case i of Chunk c \<Rightarrow> Some c | StateRef _ \<Rightarrow> None) items"
  by (induction items cl rule: consume.induct) (auto simp: List.map_filter_simps split: prod.splits)

lemma handle_event_other:
  assumes "ev_type ev \<noteq> Some ''message_start''"
  shows "\<forall>c\<in>set (fst (handle_event now ev s)). d_role (chunk_delta c) = None"
proof -
  have d: "on_content_block_delta now ev s = Some items \<Longrightarrow>
      \<forall>c\<in>set (fst (consume items s)). d_role (chunk_delta c) = None" for items
    by (auto simp: on_content_block_delta_def Let_def consume_chunks List.map_filter_simps
        mk_chunk_def empty_delta_out_def split: if_splits option.splits)
  show ?thesis
    using assms d
    by (auto simp: handle_event_def processSSEEvent_def on_content_block_start_def
        on_message_delta_def Let_def mk_chunk_def empty_delta_out_def
        split: option.splits if_splits)
qed

lemma process_events_no_role:
  "\<forall>e\<in>set evs. ev_type e \<noteq> Some ''message_start'' \<Longrightarrow>
   \<forall>c\<in>set (fst (process_events now evs s)). d_role (chunk_delta c) = None"
proof (induction evs arbitrary: s)
  case Nil
  then show ?case by simp
next
  case (Cons ev evs)
  obtain cs t where h: "handle_event now ev s = (cs, t)" by (cases "handle_event now ev s")
  have 1: "\<forall>c\<in>set cs. d_role (chunk_delta c) = None"
    using handle_event_other [of ev now s] Cons.prems h by simp
  have 2: "\<forall>c\<in>set (fst (process_events now evs t)). d_role (chunk_delta c) = None"
    using Cons.IH [of t] Cons.prems by simp
  show ?case using 1 2 h by (auto split: prod.splits)
qed

lemma gemini_stream_chunk_role:
  "gemini_stream_chunk stringify fresh now env = Inr c \<Longrightarrow> gd_role (gch_delta c) = Some ''assistant''"
  by (auto simp: gemini_stream_chunk_def Let_def split: option.splits sum.splits prod.splits)

lemma processLine_cases:
  "processLine parse stringify fresh now line = [] \<or>
   (\<exists>env c. gemini_stream_chunk stringify fresh now env = Inr c \<and>
      processLine parse stringify fresh now line = [c])"
  by (simp add: processLine_def Let_def split: option.split sum.split) blast

lemma processLine_role:
  "c \<in> set (processLine parse stringify fresh now line) \<Longrightarrow> gd_role (gch_delta c) = Some ''assistant''"
  using processLine_cases [of parse stringify fresh now line]
  by (auto dest: gemini_stream_chunk_role)

lemma gemini_stream_loop_role:
  "\<forall>c\<in>set (gemini_stream_loop parse stringify fresh now reads buffer).
     gd_role (gch_delta c) = Some ''assistant''"
proof (induction reads arbitrary: buffer)
  case Nil
  then show ?case by (auto dest: processLine_role)
next
  case (Cons v reads)
  then show ?case by (auto simp: Let_def dest: processLine_role)
qed

text \<open>
  C4 as stated fails for the Cloud-Code stream transcoder: every chunk it emits carries
  \<open>role: "assistant"\<close>, so a stream of two data lines has the role on both chunks.
\<close>

theorem gemini_role_on_every_chunk:
  "map (\<lambda>c. gd_role (gch_delta c))
     (gemini_stream sample_gemini_parse (\<lambda>j. []) ''tool_0'' 0
        [''data: '' @ gemini_payload_hi @ [CHR 0x0A],
         ''data: '' @ gemini_payload_there @ [CHR 0x0A]])
   = [Some ''assistant'', Some ''assistant'']"
  by code_simp

text \<open>
  C4, amended. In the Anthropic-style stream transcoder the role is emitted by the
  \<open>message_start\<close> event: on a stream whose first event is \<open>message_start\<close> and which has no
  other \<open>message_start\<close>, \<open>delta.role\<close> is on the first emitted chunk and every later chunk's
  delta omits it. The Cloud-Code stream transcoder puts \<open>role: "assistant"\<close> on every chunk
  it emits.
\<close>

theorem role_on_first_chunk:
  "(ev_type ev0 = Some ''message_start'' \<and> (\<forall>e\<in>set evs. ev_type e \<noteq> Some ''message_start'') \<longrightarrow>
      (\<exists>c cs. fst (process_events now (ev0 # evs) s) = c # cs \<and>
         d_role (chunk_delta c) = Some ''assistant'' \<and>
         (\<forall>c'\<in>set cs. d_role (chunk_delta c') = None)))
   \<and> (\<forall>c\<in>set (gemini_stream parse stringify fresh now reads).
         gd_role (gch_delta c) = Some ''assistant'')"
proof -
  have "\<exists>c cs. fst (process_events now (ev0 # evs) s) = c # cs \<and>
         d_role (chunk_delta c) = Some ''assistant'' \<and>
         (\<forall>c'\<in>set cs. d_role (chunk_delta c') = None)"
    if a: "ev_type ev0 = Some ''message_start''"
      and b: "\<forall>e\<in>set evs. ev_type e \<noteq> Some ''message_start''"
  proof -
    obtain c where c: "fst (handle_event now ev0 s) = [c]" "d_role (chunk_delta c) = Some ''assistant''"
      using handle_event_message_start [OF a] by blast
    obtain t where t: "handle_event now ev0 s = ([c], t)"
      using c(1) by (cases "handle_event now ev0 s") simp
    have "fst (process_events now (ev0 # evs) s) = c # fst (process_events now evs t)"
      using t by (simp split: prod.splits)
    then show ?thesis
      using c(2) process_events_no_role [OF b, of now t] by blast
  qed
  then show ?thesis
    using gemini_stream_loop_role [of parse stringify fresh now reads "[]"]
    by (simp add: gemini_stream_def)
qed

theorem role_on_first_chunk_witness:
  "(\<exists>c cs. fst (process_events 0
        [sample_message_start, sample_text_event ''Hi'', sample_message_delta ''end_turn'']
        initial_state) = c # cs \<and>
      d_role (chunk_delta c) = Some ''assistant'' \<and>
      map (\<lambda>c'. d_role (chunk_delta c')) cs = [None, None])
   \<and> list_all (\<lambda>c. gd_role (gch_delta c) = Some ''assistant'')
       (gemini_stream sample_gemini_parse (\<lambda>j. []) ''tool_0'' 0
          [''data: '' @ gemini_payload_hi @ [CHR 0x0A]])"
proof -
  let ?evs = "[sample_text_event ''Hi'', sample_message_delta ''end_turn'']"
  have h: "ev_type sample_message_start = Some ''message_start'' \<and>
      (\<forall>e\<in>set ?evs. ev_type e \<noteq> Some ''message_start'')"
    by (simp add: sample_message_start_def sample_text_event_def sample_message_delta_def)
  have len: "length (fst (process_events 0 (sample_message_start # ?evs) initial_state)) = 3"
    by (simp add: handle_event_def processSSEEvent_def sample_message_start_def
        sample_text_event_def sample_message_delta_def on_message_start_def
        on_content_block_delta_def on_message_delta_def Let_def empty_delta_def
        split: prod.splits)
  from role_on_first_chunk [of sample_message_start ?evs 0 initial_state
      sample_gemini_parse "\<lambda>j. []" "''tool_0''" "[''data: '' @ gemini_payload_hi @ [CHR 0x0A]]"] h
  obtain c cs where c: "fst (process_events 0 (sample_message_start # ?evs) initial_state) = c # cs"
    "d_role (chunk_delta c) = Some ''assistant''" "\<forall>c'\<in>set cs. d_role (chunk_delta c') = None"
    and g: "\<forall>c\<in>set (gemini_stream sample_gemini_parse (\<lambda>j. []) ''tool_0'' 0
          [''data: '' @ gemini_payload_hi @ [CHR 0x0A]]). gd_role (gch_delta c) = Some ''assistant''"
    by blast
  have "length cs = 2" using len c(1) by simp
  then obtain c1 c2 where "cs = [c1, c2]"
    by (metis (no_types, opaque_lifting) One_nat_def Suc_1 length_0_conv length_Suc_conv)
  then have "map (\<lambda>c'. d_role (chunk_delta c')) cs = [None, None]" using c(3) by simp
  then show ?thesis using c(1,2) g by (auto simp: list_all_iff)
qed

subsection \<open>Errors of the schema adapter\<close>

lemma process_fields_step:
  assumes "k \<noteq> ''type''"
  shows "(\<exists>e. process_fields ((k, v) # kvs) g = Inl e) \<or>
         (\<exists>g'. process_fields ((k, v) # kvs) g = process_fields kvs g')"
proof -
  consider (null) "v = JNull"
    | (items) "v \<noteq> JNull" "k = ''items''"
    | (anyOf) "v \<noteq> JNull" "k = ''anyOf''"
    | (props) "v \<noteq> JNull" "k = ''properties''"
    | (addl) "v \<noteq> JNull" "k = ''additionalProperties''"
    | (other) "v \<noteq> JNull" "k \<noteq> ''items''" "k \<noteq> ''anyOf''" "k \<noteq> ''properties''"
        "k \<noteq> ''additionalProperties''"
    by blast
  then show ?thesis
  proof cases
    case null
    then show ?thesis by auto
  next
    case items
    then show ?thesis by (cases "processJsonSchema v") auto
  next
    case anyOf
    show ?thesis
    proof (cases v)
      case (JArr xs)
      then show ?thesis using anyOf by (cases "process_list xs") auto
    qed (use anyOf in auto)
  next
    case props
    show ?thesis
    proof (cases v)
      case (JArr xs)
      then show ?thesis using props
        by (cases "process_dict (zip (index_keys (length xs)) xs) []") auto
    next
      case (JObj d)
      then show ?thesis using props by (cases "process_dict d []") auto
    qed (use props in auto)
  next
    case addl
    then show ?thesis by auto
  next
    case other
    then show ?thesis using assms by auto
  qed
qed

lemma process_fields_null_type:
  "map_of kvs ''type'' = Some (JStr ''null'') \<Longrightarrow> \<exists>e. process_fields kvs g = Inl e"
proof (induction kvs arbitrary: g)
  case Nil
  then show ?case by simp
next
  case (Cons kv kvs)
  obtain k v where kv: "kv = (k, v)" by (cases kv)
  show ?case
  proof (cases "k = ''type''")
    case True
    then show ?thesis using Cons.prems kv by simp
  next
    case False
    then have m: "map_of kvs ''type'' = Some (JStr ''null'')" using Cons.prems kv by simp
    have "(\<exists>e. process_fields ((k, v) # kvs) g = Inl e) \<or>
          (\<exists>g'. process_fields ((k, v) # kvs) g = process_fields kvs g')"
      using False by (rule process_fields_step)
    then show ?thesis using Cons.IH [OF m] kv by metis
  qed
qed

text \<open>
  Applied directly to a schema that populates both \<open>type\<close> and \<open>anyOf\<close> (both truthy), the
  adapter throws the conflict error; applied directly to a schema whose \<open>type\<close> is the
  string \<open>"null"\<close>, it throws. The same holds for a schema reached through \<open>items\<close>, a value
  of \<open>properties\<close> or an \<open>anyOf\<close> element that is not typed \<open>"null"\<close>, since the adapter is
  applied to each of them and its error is passed on.
\<close>

lemma direct_application_throws:
  "(truthy_opt (get_prop s ''type'') \<and> truthy_opt (get_prop s ''anyOf'') \<longrightarrow>
      processJsonSchema s = Inl (SchemaError ''type and anyOf cannot be both populated.''))
   \<and> (get_prop s ''type'' = Some (JStr ''null'') \<longrightarrow> (\<exists>e. processJsonSchema s = Inl e))"
proof -
  have 1: "processJsonSchema s = Inl (SchemaError ''type and anyOf cannot be both populated.'')"
    if "truthy_opt (get_prop s ''type'')" "truthy_opt (get_prop s ''anyOf'')"
  proof -
    have "s \<noteq> JNull" using that(1) by (auto simp: truthy_opt_def)
    then show ?thesis using that by (simp add: processJsonSchema.simps)
  qed
  have 2: "\<exists>e. processJsonSchema s = Inl e" if t: "get_prop s ''type'' = Some (JStr ''null'')"
  proof (cases "truthy_opt (get_prop s ''anyOf'')")
    case True
    then show ?thesis using 1 t by (simp add: truthy_opt_def)
  next
    case False
    obtain kvs where s: "s = JObj kvs" using t by (cases s) simp_all
    have u: "unwrap_nullable s = (s, False)"
      using False by (auto simp: unwrap_nullable_def truthy_opt_def split: option.splits json.splits list.splits)
    obtain e' where "process_fields kvs [] = Inl e'"
      using process_fields_null_type [of kvs "[]"] t s by auto
    then show ?thesis
      using t s u False by (simp add: processJsonSchema.simps)
  qed
  from 1 2 show ?thesis by blast
qed

text \<open>
  C8: the adapter is to throw for every fragment that populates both \<open>type\<close> and \<open>anyOf\<close>,
  and for every fragment whose type is exactly \<open>"null"\<close> with no alternative, and to return
  no converted schema then. The code does so for the schema it is applied to, but not for
  every fragment. The test for \<open>type\<close> and \<open>anyOf\<close> being both populated is made on the
  incoming schema only, before a two-element \<open>anyOf\<close> with a null alternative is replaced by
  its other element, and it is not made again: the fragment
  \<open>{type: "object", anyOf: [{type: "string"}]}\<close>, which the adapter rejects when applied to it,
  is converted without an error when it is the non-null member of such an \<open>anyOf\<close>, and the
  returned schema carries both \<open>type\<close> and \<open>anyOf\<close>. Likewise \<open>{type: "null"}\<close> is rejected
  when the adapter is applied to it, but as the only element of an \<open>anyOf\<close> list it is
  dropped: the conversion returns \<open>{nullable: true, anyOf: []}\<close>.
\<close>

theorem collapsed_fragment_not_checked:
  "processJsonSchema (JObj [(''type'', JStr ''object''), (''anyOf'', JArr [JObj [(''type'', JStr ''string'')]])])
     = Inl (SchemaError ''type and anyOf cannot be both populated.'')
   \<and> processJsonSchema
        (JObj [(''anyOf'', JArr
           [JObj [(''type'', JStr ''object''), (''anyOf'', JArr [JObj [(''type'', JStr ''string'')]])],
            JObj [(''type'', JStr ''null'')]])])
     = Inr (JObj [(''nullable'', JBool True), (''type'', JStr ''OBJECT''),
                  (''anyOf'', JArr [JObj [(''type'', JStr ''STRING'')]])])
   \<and> processJsonSchema (JObj [(''type'', JStr ''null'')])
     = Inl (SchemaError ''type: null can not be the only possible type for the field.'')
   \<and> processJsonSchema (JObj [(''anyOf'', JArr [JObj [(''type'', JStr ''null'')]])])
     = Inr (JObj [(''nullable'', JBool True), (''anyOf'', JArr [])])"
  by code_simp

subsection \<open>A second pass of the schema adapter\<close>

text \<open>
  C6: for every schema on which the adapter succeeds, a second application to the first
  result is to return that result again, without throwing. The code does not: the nullable
  wrapper \<open>{anyOf: [{type: "null"}, X]}\<close> is replaced by \<open>X\<close> after the test for \<open>type\<close> and
  \<open>anyOf\<close> being both populated, so for \<open>X = {type: "string", anyOf: [{type: "number"}]}\<close>
  the first pass succeeds with a result that has both \<open>type\<close> and \<open>anyOf\<close>, and the second
  pass, applied to that result, throws instead of returning it.
\<close>

theorem second_pass_throws:
  "processJsonSchema
     (JObj [(''anyOf'', JArr [JObj [(''type'', JStr ''null'')],
        JObj [(''type'', JStr ''string''), (''anyOf'', JArr [JObj [(''type'', JStr ''number'')]])]])])
     = Inr (JObj [(''nullable'', JBool True), (''type'', JStr ''STRING''),
                  (''anyOf'', JArr [JObj [(''type'', JStr ''NUMBER'')]])])
   \<and> processJsonSchema
        (JObj [(''nullable'', JBool True), (''type'', JStr ''STRING''),
               (''anyOf'', JArr [JObj [(''type'', JStr ''NUMBER'')]])])
     = Inl (SchemaError ''type and anyOf cannot be both populated.'')"
  by code_simp

end
